theory Spec2Isabelle
  imports Complex_Main "HOL-Library.Sublist"
begin

section \<open>Python values used by the archetype subsystem\<close>

text \<open>
  Python floats are read as real numbers: every threshold, mean and product below is
  exact arithmetic, so binary rounding is outside the embedding, and so are NaN and the
  infinities except at the classifier, whose input check tells them apart.
  Dictionaries with string keys are maps; a dictionary whose iteration order matters is
  an association list in insertion order.
\<close>

text \<open>
  Where a function is handed a float from outside and what it does depends on the float
  being a number at all, the float is a \<open>pyfloat\<close>: a real number, NaN, or one of the two
  infinities. Its zero is the float \<^verbatim>\<open>0.0\<close>.
\<close>

datatype pyfloat = Finite real | NaN | PosInf | NegInf

instantiation pyfloat :: zero
begin

definition zero_pyfloat :: pyfloat where
  "zero_pyfloat = Finite 0"

instance ..

end

text \<open>\<^verbatim>\<open>d.get(key, default)\<close>\<close>

definition dict_get :: "('k \<rightharpoonup> 'v) \<Rightarrow> 'k \<Rightarrow> 'v \<Rightarrow> 'v" where
  "dict_get d key dflt = (case d key of None \<Rightarrow> dflt | Some v \<Rightarrow> v)"

text \<open>\<^verbatim>\<open>sub in s\<close> on strings: \<open>sub\<close> occurs in \<open>s\<close> as a contiguous block.\<close>

fun py_in :: "string \<Rightarrow> string \<Rightarrow> bool" where
  "py_in sub [] = (sub = [])"
| "py_in sub (c # cs) = (prefix sub (c # cs) \<or> py_in sub cs)"

text \<open>\<^verbatim>\<open>str.lower()\<close>, on the ASCII letters.\<close>

definition py_lower :: "string \<Rightarrow> string" where
  "py_lower s =
     map (\<lambda>c. case map_of (zip ''ABCDEFGHIJKLMNOPQRSTUVWXYZ'' ''abcdefghijklmnopqrstuvwxyz'') c of
                 Some l \<Rightarrow> l
               | None \<Rightarrow> c) s"

text \<open>
  \<^verbatim>\<open>str.strip()\<close>: leading and trailing whitespace removed. A \<open>char\<close> is a code point
  below 256; the whitespace among them is the tab to the carriage return, the four
  separators 0x1C to 0x1F, the space, the next-line character 0x85 and the no-break
  space 0xA0.
\<close>

definition py_isspace :: "char \<Rightarrow> bool" where
  "py_isspace c =
     (c \<in> set [CHR 0x09, CHR 0x0A, CHR 0x0B, CHR 0x0C, CHR 0x0D,
                CHR 0x1C, CHR 0x1D, CHR 0x1E, CHR 0x1F, CHR '' '', CHR 0x85, CHR 0xA0])"

definition py_strip :: "string \<Rightarrow> string" where
  "py_strip s = rev (dropWhile py_isspace (rev (dropWhile py_isspace s)))"

text \<open>\<^verbatim>\<open>str(i)\<close> for an integer: its decimal digits.\<close>

fun digits :: "nat \<Rightarrow> string" where
  "digits n =
     (if n < 10 then [''0123456789'' ! n]
      else digits (n div 10) @ [''0123456789'' ! (n mod 10)])"

definition py_str_int :: "int \<Rightarrow> string" where
  "py_str_int i = (if i < 0 then CHR ''-'' # digits (nat (- i)) else digits (nat i))"

text \<open>
  \<^verbatim>\<open>round(x, ndigits)\<close>: the nearest multiple of \<open>10 ^ -ndigits\<close>, a tie going to the
  even one.
\<close>

definition py_round :: "real \<Rightarrow> nat \<Rightarrow> real" where
  "py_round x ndigits =
     (let s = 10 ^ ndigits; y = x * s; f = \<lfloor>y\<rfloor>; d = y - of_int f
      in (if d < 1 / 2 then of_int f
          else if 1 / 2 < d then of_int (f + 1)
          else if even f then of_int f else of_int (f + 1)) / s)"

text \<open>\<^verbatim>\<open>Series.mean()\<close> of a column with at least one entry.\<close>

definition mean :: "real list \<Rightarrow> real" where
  "mean xs = sum_list xs / real (length xs)"

text \<open>
  \<^verbatim>\<open>max(d, key=d.get)\<close> over a dictionary in insertion order: the scan keeps the item it
  holds unless the next one is strictly larger, so the first of several largest items
  wins. The item is returned with its value (\<^verbatim>\<open>d[max(d, key=d.get)]\<close> is its second
  component). The dictionary it is applied to always has four entries.
\<close>

fun py_max_item :: "('k \<times> real) list \<Rightarrow> 'k \<times> real" where
  "py_max_item (kv # rest) = foldl (\<lambda>best kv'. if snd best < snd kv' then kv' else best) kv rest"


section \<open>ml_services/generate_synthetic_data.py\<close>

text \<open>
  A row of the synthetic data frame: the dictionary \<^verbatim>\<open>user\<close> that
  \<^verbatim>\<open>generate_synthetic_users\<close> appends, which is also a row of the frame the training
  script reads back.
\<close>

record user_row =
  user_id :: string
  daily_miles_driven :: real
  meat_meals_per_week :: real
  vegetarian_meals_per_week :: real
  electricity_kwh_per_day :: real
  natural_gas_therms_per_month :: real
  flights_per_year :: real
  total_annual_emissions_kg :: real
  transport_emissions_kg :: real
  food_emissions_kg :: real
  energy_emissions_kg :: real
  flight_emissions_kg :: real

text \<open>\<^verbatim>\<open>f"{i:04d}"\<close> for a loop index.\<close>

definition format_04d :: "nat \<Rightarrow> string" where
  "format_04d i = replicate (4 - length (digits i)) CHR ''0'' @ digits i"

text \<open>
  The part of the loop body of \<^verbatim>\<open>generate_synthetic_users\<close> after the random draws: \<open>i\<close>
  is the loop index and the other arguments are the six values drawn for this user
  (after their clipping with \<^verbatim>\<open>max\<close>).
\<close>

definition synthetic_user :: "nat \<Rightarrow> real \<Rightarrow> nat \<Rightarrow> nat \<Rightarrow> real \<Rightarrow> real \<Rightarrow> nat \<Rightarrow> user_row" where
  "synthetic_user i daily_miles meat_meals veg_meals electricity_kwh gas_therms flights =
     (let transport_emissions = daily_miles * 365 * 0.411;
          food_emissions = (real meat_meals * 3.5 + real veg_meals * 0.5) * 52;
          energy_emissions = (electricity_kwh * 0.5 * 365) + (gas_therms * 5.3 * 12);
          flight_emissions = real flights * 900;
          total_annual_emissions =
            transport_emissions + food_emissions + energy_emissions + flight_emissions
      in \<lparr>user_id = ''user_'' @ format_04d i,
          daily_miles_driven = py_round daily_miles 2,
          meat_meals_per_week = real meat_meals,
          vegetarian_meals_per_week = real veg_meals,
          electricity_kwh_per_day = py_round electricity_kwh 2,
          natural_gas_therms_per_month = py_round gas_therms 2,
          flights_per_year = real flights,
          total_annual_emissions_kg = py_round total_annual_emissions 2,
          transport_emissions_kg = py_round transport_emissions 2,
          food_emissions_kg = py_round food_emissions 2,
          energy_emissions_kg = py_round energy_emissions 2,
          flight_emissions_kg = py_round flight_emissions 2\<rparr>)"


section \<open>ml_services/train_kmeans.py\<close>

text \<open>\<^verbatim>\<open>feature_cols\<close> of \<^verbatim>\<open>prepare_features\<close>.\<close>

definition train_feature_cols :: "string list" where
  "train_feature_cols =
     [''daily_miles_driven'',
      ''meat_meals_per_week'',
      ''electricity_kwh_per_day'',
      ''natural_gas_therms_per_month'',
      ''flights_per_year'',
      ''transport_emissions_kg'',
      ''food_emissions_kg'',
      ''energy_emissions_kg'']"

text \<open>
  The numeric columns of a row of the data frame, by name, and \<^verbatim>\<open>df[feature_cols].values\<close>
  of \<^verbatim>\<open>prepare_features\<close>: for each row the values of the listed columns in the order of
  the list; a name that is no column raises \<^verbatim>\<open>KeyError\<close>, which is \<open>None\<close>. The matrix
  \<open>X\<close> then goes to scikit-learn's \<^verbatim>\<open>StandardScaler\<close>.
\<close>

definition columns :: "user_row \<Rightarrow> (string \<rightharpoonup> real)" where
  "columns row =
     [''daily_miles_driven'' \<mapsto> daily_miles_driven row,
      ''meat_meals_per_week'' \<mapsto> meat_meals_per_week row,
      ''vegetarian_meals_per_week'' \<mapsto> vegetarian_meals_per_week row,
      ''electricity_kwh_per_day'' \<mapsto> electricity_kwh_per_day row,
      ''natural_gas_therms_per_month'' \<mapsto> natural_gas_therms_per_month row,
      ''flights_per_year'' \<mapsto> flights_per_year row,
      ''total_annual_emissions_kg'' \<mapsto> total_annual_emissions_kg row,
      ''transport_emissions_kg'' \<mapsto> transport_emissions_kg row,
      ''food_emissions_kg'' \<mapsto> food_emissions_kg row,
      ''energy_emissions_kg'' \<mapsto> energy_emissions_kg row,
      ''flight_emissions_kg'' \<mapsto> flight_emissions_kg row]"

fun select_columns :: "(string \<rightharpoonup> real) \<Rightarrow> string list \<Rightarrow> real list option" where
  "select_columns d [] = Some []"
| "select_columns d (col # cols) =
     (case d col of
        None \<Rightarrow> None
      | Some v \<Rightarrow> map_option ((#) v) (select_columns d cols))"

fun prepare_features_X :: "user_row list \<Rightarrow> real list list option" where
  "prepare_features_X [] = Some []"
| "prepare_features_X (row # df) =
     (case select_columns (columns row) train_feature_cols of
        None \<Rightarrow> None
      | Some x \<Rightarrow> map_option ((#) x) (prepare_features_X df))"

record cluster_stats =
  size :: nat
  avg_total_emissions :: real
  avg_daily_miles :: real
  avg_meat_meals :: real
  avg_electricity :: real
  avg_flights :: real

record cluster_description =
  archetype :: string
  stats :: cluster_stats
  transport_ratio :: real
  food_ratio :: real
  energy_ratio :: real
  flight_ratio :: real
  dominant_source :: string
  dominant_ratio :: real

text \<open>
  The body of the loop of \<^verbatim>\<open>analyze_clusters\<close> for one cluster, \<open>cluster_data\<close> being the
  rows labelled with it. The local names are the source's.
\<close>

definition analyze_cluster :: "user_row list \<Rightarrow> cluster_description" where
  "analyze_cluster cluster_data =
     (let stats = \<lparr>size = length cluster_data,
                   avg_total_emissions = mean (map total_annual_emissions_kg cluster_data),
                   avg_daily_miles = mean (map daily_miles_driven cluster_data),
                   avg_meat_meals = mean (map meat_meals_per_week cluster_data),
                   avg_electricity = mean (map electricity_kwh_per_day cluster_data),
                   avg_flights = mean (map flights_per_year cluster_data)\<rparr>;
          transport_ratio = mean (map transport_emissions_kg cluster_data)
                              / mean (map total_annual_emissions_kg cluster_data);
          food_ratio = mean (map food_emissions_kg cluster_data)
                         / mean (map total_annual_emissions_kg cluster_data);
          energy_ratio = mean (map energy_emissions_kg cluster_data)
                           / mean (map total_annual_emissions_kg cluster_data);
          flight_ratio = mean (map flight_emissions_kg cluster_data)
                           / mean (map total_annual_emissions_kg cluster_data);
          ratios = [(''transport'', transport_ratio),
                    (''food'', food_ratio),
                    (''energy'', energy_ratio),
                    (''flight'', flight_ratio)];
          dominant = fst (py_max_item ratios);
          dominant_ratio = snd (py_max_item ratios);
          avg_total = mean (map total_annual_emissions_kg cluster_data);
          avg_electricity = mean (map electricity_kwh_per_day cluster_data);
          avg_meat = mean (map meat_meals_per_week cluster_data);
          archetype =
            (if avg_total < 6000 then ''Low Total Emissions''
             else if dominant = ''transport'' \<and> transport_ratio > 0.30
                     \<and> transport_ratio > energy_ratio * 1.1 then ''High Transportation''
             else if dominant = ''food'' \<and> food_ratio > 0.20 then ''High Food Emissions''
             else if dominant = ''energy'' then
               (if avg_electricity > 100 then ''Very High Energy Usage''
                else if avg_meat > 8 then ''High Energy & Food Usage''
                else if avg_total < 12000 then ''Moderate Energy Usage''
                else ''High Energy Usage'')
             else if dominant = ''flight'' \<and> flight_ratio > 0.15 then ''High Flight Emissions''
             else if max transport_ratio (max food_ratio energy_ratio) < 0.50
               then ''Balanced Emissions''
             else ''High Energy Usage'')
      in \<lparr>archetype = archetype,
          stats = stats,
          transport_ratio = py_round transport_ratio 3,
          food_ratio = py_round food_ratio 3,
          energy_ratio = py_round energy_ratio 3,
          flight_ratio = py_round flight_ratio 3,
          dominant_source = dominant,
          dominant_ratio = py_round dominant_ratio 3\<rparr>)"

text \<open>
  \<^verbatim>\<open>analyze_clusters\<close>: \<open>labels\<close> is \<^verbatim>\<open>kmeans.labels_\<close> (one cluster id per row of \<open>df\<close>),
  \<open>n_clusters\<close> is \<^verbatim>\<open>kmeans.n_clusters\<close>. The result is the dictionary
  \<^verbatim>\<open>cluster_descriptions\<close>, keyed by cluster id.
\<close>

definition cluster_rows :: "user_row list \<Rightarrow> nat list \<Rightarrow> nat \<Rightarrow> user_row list" where
  "cluster_rows df labels cluster_id = map fst (filter (\<lambda>(row, l). l = cluster_id) (zip df labels))"

definition analyze_clusters :: "user_row list \<Rightarrow> nat list \<Rightarrow> nat \<Rightarrow> (nat \<times> cluster_description) list" where
  "analyze_clusters df labels n_clusters =
     map (\<lambda>cluster_id. (cluster_id, analyze_cluster (cluster_rows df labels cluster_id)))
       [0..<n_clusters]"


text \<open>
  \<^verbatim>\<open>save_model\<close> dumps \<^verbatim>\<open>cluster_descriptions\<close> as JSON, which turns each integer key into
  its decimal string; this is the dictionary that \<^verbatim>\<open>json.load\<close> reads back.
\<close>

definition dumped_descriptions :: "(nat \<times> cluster_description) list \<Rightarrow> (string \<rightharpoonup> cluster_description)" where
  "dumped_descriptions descriptions =
     map_of (map (\<lambda>(cluster_id, d). (py_str_int (int cluster_id), d)) descriptions)"


section \<open>backend/services/kmeans_service.py\<close>

text \<open>\<^verbatim>\<open>feature_cols\<close> of \<^verbatim>\<open>classify_user_archetype\<close>.\<close>

definition classify_feature_cols :: "string list" where
  "classify_feature_cols =
     [''daily_miles_driven'',
      ''meat_meals_per_week'',
      ''electricity_kwh_per_day'',
      ''natural_gas_therms_per_month'',
      ''flights_per_year'',
      ''transport_emissions_kg'',
      ''food_emissions_kg'',
      ''energy_emissions_kg'']"

text \<open>
  The three files of \<^verbatim>\<open>MODEL_DIR\<close>. Opening a file that is not there raises
  \<^verbatim>\<open>FileNotFoundError\<close>; a file that is there but does not unpickle (or parse as JSON)
  raises another exception. The unpickled \<^verbatim>\<open>KMeans\<close> and \<^verbatim>\<open>StandardScaler\<close> objects belong
  to scikit-learn and are taken by what the classifier calls on them:
  \<^verbatim>\<open>scaler.transform\<close> and \<^verbatim>\<open>kmeans.predict\<close> on one row of numbers. The JSON file holds what training
  dumped: cluster descriptions keyed by the decimal string of the cluster id.
\<close>

datatype 'a artifact_file = FileMissing | FileCorrupt | FileHolds 'a

type_synonym kmeans = "real list \<Rightarrow> int"
type_synonym scaler = "real list \<Rightarrow> real list"
type_synonym cluster_descriptions = "string \<rightharpoonup> cluster_description"

record model_dir =
  kmeans_pkl :: "kmeans artifact_file"
  scaler_pkl :: "scaler artifact_file"
  cluster_descriptions_json :: "cluster_descriptions artifact_file"

text \<open>
  The exceptions that nothing in the request catches: the two that loading a file that
  is there can raise, and the \<^verbatim>\<open>ValueError\<close> of scikit-learn's input check.
\<close>

datatype error = UnpicklingError | JSONDecodeError | ValueError

text \<open>
  \<^verbatim>\<open>load_kmeans_model\<close>: the files are opened in this order, and only
  \<^verbatim>\<open>FileNotFoundError\<close> is caught. \<open>Inr None\<close> is the triple \<^verbatim>\<open>(None, None, None)\<close>.
\<close>

definition load_kmeans_model :: "model_dir \<Rightarrow> error + (kmeans \<times> scaler \<times> cluster_descriptions) option" where
  "load_kmeans_model dir =
     (case kmeans_pkl dir of
        FileMissing \<Rightarrow> Inr None
      | FileCorrupt \<Rightarrow> Inl UnpicklingError
      | FileHolds kmeans \<Rightarrow>
          (case scaler_pkl dir of
             FileMissing \<Rightarrow> Inr None
           | FileCorrupt \<Rightarrow> Inl UnpicklingError
           | FileHolds scaler \<Rightarrow>
               (case cluster_descriptions_json dir of
                  FileMissing \<Rightarrow> Inr None
                | FileCorrupt \<Rightarrow> Inl JSONDecodeError
                | FileHolds cluster_descriptions \<Rightarrow> Inr (Some (kmeans, scaler, cluster_descriptions)))))"

text \<open>
  The dictionary \<^verbatim>\<open>classify_user_archetype\<close> returns. \<open>class_description\<close> is the key
  \<^verbatim>\<open>"description"\<close> and \<open>class_stats\<close> the key \<^verbatim>\<open>"cluster_stats"\<close>; \<open>None\<close> stands for the
  empty dictionary that \<^verbatim>\<open>.get(..., {})\<close> falls back to.
\<close>

record classification =
  cluster_id :: int
  class_archetype :: string
  class_description :: "cluster_description option"
  class_stats :: "cluster_stats option"

text \<open>
  The local \<^verbatim>\<open>feature_vector\<close>: the values of the dictionary under the names of
  \<^verbatim>\<open>feature_cols\<close>, in the order of that list, a missing key read as \<^verbatim>\<open>0.0\<close>. It is the
  same for a dictionary of reals and for one of \<open>pyfloat\<close>s.
\<close>

definition feature_vector :: "(string \<rightharpoonup> 'a::zero) \<Rightarrow> 'a list" where
  "feature_vector user_emission_data =
     map (\<lambda>col. dict_get user_emission_data col 0) classify_feature_cols"

text \<open>
  \<^verbatim>\<open>scaler.transform\<close> validates the row before it standardises it (scikit-learn's
  \<^verbatim>\<open>check_array\<close>): an entry that is NaN or infinite raises \<^verbatim>\<open>ValueError\<close>. The row always
  has the eight entries the scaler was fitted on.
\<close>

fun check_array :: "pyfloat list \<Rightarrow> error + real list" where
  "check_array [] = Inr []"
| "check_array (Finite x # xs) =
     (case check_array xs of Inl e \<Rightarrow> Inl e | Inr row \<Rightarrow> Inr (x # row))"
| "check_array (x # xs) = Inl ValueError"

definition classify_user_archetype :: "model_dir \<Rightarrow> (string \<rightharpoonup> pyfloat) \<Rightarrow> error + classification option" where
  "classify_user_archetype dir user_emission_data =
     (case load_kmeans_model dir of
        Inl e \<Rightarrow> Inl e
      | Inr None \<Rightarrow> Inr None
      | Inr (Some (kmeans, scaler, cluster_descriptions)) \<Rightarrow>
          (case check_array (feature_vector user_emission_data) of
             Inl e \<Rightarrow> Inl e
           | Inr row \<Rightarrow>
               (let feature_vector_scaled = scaler row;
                    cluster_id = kmeans feature_vector_scaled;
                    cluster_info = cluster_descriptions (py_str_int cluster_id)
                in Inr (Some \<lparr>cluster_id = cluster_id,
                              class_archetype = (case cluster_info of
                                                   None \<Rightarrow> ''Unknown''
                                                 | Some info \<Rightarrow> archetype info),
                              class_description = cluster_info,
                              class_stats = map_option stats cluster_info\<rparr>))))"

text \<open>
  A recommendation: the dictionary the rule engine appends, and the fields of the
  \<^verbatim>\<open>Recommendation\<close> model of the response.
\<close>

record recommendation =
  title :: string
  description :: string
  estimated_savings_kg :: real
  category :: string
  priority :: string

text \<open>
  How a float is printed inside an f-string is not computed here: \<open>format_1f\<close> is
  \<^verbatim>\<open>f"{x:.1f}"\<close> and \<open>format_str\<close> is \<^verbatim>\<open>f"{x}"\<close>. The parameter \<open>archetype_name\<close> of the rule
  engine is the source's \<^verbatim>\<open>archetype\<close>.
\<close>

record py_format =
  format_1f :: "real \<Rightarrow> string"
  format_str :: "real \<Rightarrow> string"

text \<open>
  The five blocks of \<^verbatim>\<open>generate_rule_based_recommendations\<close>, in the order of the source;
  each takes the list \<^verbatim>\<open>recommendations\<close> as the blocks before it left it and returns it
  as the block leaves it.
\<close>

definition transportation_block ::
    "py_format \<Rightarrow> (string \<rightharpoonup> real) \<Rightarrow> string \<Rightarrow> recommendation list \<Rightarrow> recommendation list" where
  "transportation_block fmt user_emission_data archetype_name recommendations =
     (if py_in ''Transportation'' archetype_name
         \<or> dict_get user_emission_data ''transport_emissions_kg'' 0 > 2000
      then (let miles = dict_get user_emission_data ''daily_miles_driven'' 0
            in if miles > 30
               then (let savings = (miles - 25) * 0.411 * 7
                     in recommendations @
                        [\<lparr>title = ''Reduce Daily Driving'',
                          description = ''Reduce driving by '' @ format_1f fmt (miles - 25)
                                        @ '' miles/week'',
                          estimated_savings_kg = savings,
                          category = ''transportation'',
                          priority = ''high''\<rparr>])
               else recommendations)
      else recommendations)"

definition food_block ::
    "py_format \<Rightarrow> (string \<rightharpoonup> real) \<Rightarrow> string \<Rightarrow> recommendation list \<Rightarrow> recommendation list" where
  "food_block fmt user_emission_data archetype_name recommendations =
     (if py_in ''Food'' archetype_name
         \<or> dict_get user_emission_data ''food_emissions_kg'' 0 > 1500
      then (let meat_meals = dict_get user_emission_data ''meat_meals_per_week'' 0
            in if meat_meals > 7
               then (let savings = (meat_meals - 5) * 3.5
                     in recommendations @
                        [\<lparr>title = ''Reduce Meat Consumption'',
                          description = ''Replace '' @ format_str fmt (meat_meals - 5)
                                        @ '' meat meals per week with vegetarian options'',
                          estimated_savings_kg = savings * 52,
                          category = ''food'',
                          priority = ''high''\<rparr>])
               else recommendations)
      else recommendations)"

definition energy_block ::
    "py_format \<Rightarrow> (string \<rightharpoonup> real) \<Rightarrow> string \<Rightarrow> recommendation list \<Rightarrow> recommendation list" where
  "energy_block fmt user_emission_data archetype_name recommendations =
     (if py_in ''Energy'' archetype_name
         \<or> dict_get user_emission_data ''energy_emissions_kg'' 0 > 3000
      then (let electricity = dict_get user_emission_data ''electricity_kwh_per_day'' 0
            in if electricity > 30
               then (let savings = (electricity - 25) * 0.5 * 365
                     in recommendations @
                        [\<lparr>title = ''Reduce Energy Consumption'',
                          description = ''Reduce daily electricity usage by ''
                                        @ format_1f fmt (electricity - 25) @ '' kWh'',
                          estimated_savings_kg = savings,
                          category = ''energy'',
                          priority = ''medium''\<rparr>])
               else recommendations)
      else recommendations)"

definition low_emissions_block :: "string \<Rightarrow> recommendation list \<Rightarrow> recommendation list" where
  "low_emissions_block archetype_name recommendations =
     (if py_in ''Low'' archetype_name
      then recommendations @
           [\<lparr>title = ''Maintain Low Emissions'',
             description = ''You're doing great! Continue your sustainable habits.'',
             estimated_savings_kg = 0,
             category = ''general'',
             priority = ''low''\<rparr>]
      else recommendations)"

definition general_block :: "recommendation list \<Rightarrow> recommendation list" where
  "general_block recommendations =
     (if recommendations = []
      then recommendations @
           [\<lparr>title = ''Track Your Progress'',
             description = ''Continue logging activities to get personalized recommendations'',
             estimated_savings_kg = 0,
             category = ''general'',
             priority = ''low''\<rparr>]
      else recommendations)"

definition generate_rule_based_recommendations ::
    "py_format \<Rightarrow> (string \<rightharpoonup> real) \<Rightarrow> string \<Rightarrow> recommendation list" where
  "generate_rule_based_recommendations fmt user_emission_data archetype_name =
     (let recommendations = [];
          recommendations = transportation_block fmt user_emission_data archetype_name recommendations;
          recommendations = food_block fmt user_emission_data archetype_name recommendations;
          recommendations = energy_block fmt user_emission_data archetype_name recommendations;
          recommendations = low_emissions_block archetype_name recommendations;
          recommendations = general_block recommendations
      in recommendations)"


section \<open>backend/services/gemini_service.py\<close>

text \<open>
  The text-generation collaborator. \<open>None\<close>: \<^verbatim>\<open>GEMINI_API_KEY\<close> is not set. \<open>Some generate\<close>:
  the key is set, and \<open>generate prompt\<close> is what the \<^verbatim>\<open>try\<close> block of
  \<^verbatim>\<open>generate_recommendation_text\<close> obtains: \<open>Some text\<close> when \<^verbatim>\<open>get_gemini_model\<close> and
  \<^verbatim>\<open>generate_content\<close> return and \<^verbatim>\<open>response.text\<close> is \<open>text\<close>, \<open>None\<close> when any of them raises.
\<close>

type_synonym gemini = "(string \<Rightarrow> string option) option"

definition recommendation_prompt :: "string \<Rightarrow> string" where
  "recommendation_prompt rule_based_recommendation =
     [CHR 0x0A]
     @ ''Rewrite this carbon reduction recommendation in a friendly, encouraging, and engaging way.''
     @ [CHR 0x0A]
     @ ''Keep the key information (numbers, actions) but make it more conversational and motivating.''
     @ [CHR 0x0A, CHR 0x0A]
     @ ''Original recommendation: '' @ [CHR 0x22] @ rule_based_recommendation @ [CHR 0x22]
     @ [CHR 0x0A, CHR 0x0A]
     @ ''Return only the rewritten recommendation text, nothing else.''
     @ [CHR 0x0A]"

definition generate_recommendation_text :: "gemini \<Rightarrow> string \<Rightarrow> string" where
  "generate_recommendation_text gemini rule_based_recommendation =
     (case gemini of
        None \<Rightarrow> rule_based_recommendation
      | Some generate \<Rightarrow>
          (case generate (recommendation_prompt rule_based_recommendation) of
             Some text \<Rightarrow> py_strip text
           | None \<Rightarrow> rule_based_recommendation))"


section \<open>backend/routers/recommendations.py\<close>

text \<open>
  An activity row as \<^verbatim>\<open>get_activities\<close> returns it, with the columns the endpoint reads.
  \<open>date\<close> is the instant the endpoint compares with the window: microseconds since the
  epoch, after a naive value is read as UTC the way the loop does; \<open>None\<close> is a row whose
  date is absent.
\<close>

record activity =
  date :: "int option"
  activity_category :: string
  activity_subtype :: string
  amount :: real
  unit :: string
  co2e_kg :: real

text \<open>\<^verbatim>\<open>timedelta(days=30)\<close>, in microseconds.\<close>

definition thirty_days :: int where
  "thirty_days = 30 * 86400 * 1000000"

text \<open>The first loop: the rows dated within the trailing 30 days of \<open>now\<close>.\<close>

definition recent_activities :: "int \<Rightarrow> activity list \<Rightarrow> activity list" where
  "recent_activities now all_activities =
     (let thirty_days_ago = now - thirty_days
      in filter (\<lambda>act. case date act of
                         None \<Rightarrow> False
                       | Some act_date \<Rightarrow> act_date \<ge> thirty_days_ago) all_activities)"

text \<open>The counters and sums the second loop updates.\<close>

record aggregates =
  daily_miles :: real
  meat_meals :: nat
  veg_meals :: nat
  electricity_kwh :: real
  gas_therms :: real
  flights :: nat
  transport_emissions :: real
  food_emissions :: real
  energy_emissions :: real

definition initial_aggregates :: aggregates where
  "initial_aggregates =
     \<lparr>daily_miles = 0, meat_meals = 0, veg_meals = 0, electricity_kwh = 0, gas_therms = 0,
      flights = 0, transport_emissions = 0, food_emissions = 0, energy_emissions = 0\<rparr>"

text \<open>The body of the second loop, for one activity.\<close>

definition aggregate_step :: "aggregates \<Rightarrow> activity \<Rightarrow> aggregates" where
  "aggregate_step s act =
     (let category = activity_category act;
          emissions = co2e_kg act;
          unit = py_lower (unit act);
          subtype = py_lower (activity_subtype act);
          amount = amount act
      in if category = ''transportation'' then
           (let s = s\<lparr>transport_emissions := transport_emissions s + emissions\<rparr>
            in if unit \<in> set [''miles'', ''km'']
               then s\<lparr>daily_miles := daily_miles s + amount / 30\<rparr>
               else s)
         else if category = ''food'' then
           (let s = s\<lparr>food_emissions := food_emissions s + emissions\<rparr>
            in if py_in ''meat'' subtype \<or> py_in ''beef'' subtype
               then s\<lparr>meat_meals := meat_meals s + 1\<rparr>
               else s\<lparr>veg_meals := veg_meals s + 1\<rparr>)
         else if category = ''energy'' then
           (let s = s\<lparr>energy_emissions := energy_emissions s + emissions\<rparr>
            in if unit \<in> set [''kwh'', ''kilowatt-hour'']
               then s\<lparr>electricity_kwh := electricity_kwh s + amount / 30\<rparr>
               else if py_in ''therm'' unit
               then s\<lparr>gas_therms := gas_therms s + amount / 30\<rparr>
               else s)
         else s)"

definition aggregate :: "activity list \<Rightarrow> aggregates" where
  "aggregate recent = foldl aggregate_step initial_aggregates recent"

text \<open>The dictionary \<^verbatim>\<open>user_emission_data\<close> built from the counters.\<close>

definition user_emission_data_of :: "aggregates \<Rightarrow> (string \<rightharpoonup> real)" where
  "user_emission_data_of s =
     [''daily_miles_driven'' \<mapsto> daily_miles s,
      ''meat_meals_per_week'' \<mapsto> (real (meat_meals s) / 30) * 7,
      ''vegetarian_meals_per_week'' \<mapsto> (real (veg_meals s) / 30) * 7,
      ''electricity_kwh_per_day'' \<mapsto> electricity_kwh s,
      ''natural_gas_therms_per_month'' \<mapsto> gas_therms s * 30,
      ''flights_per_year'' \<mapsto> real (flights s * 12),
      ''transport_emissions_kg'' \<mapsto> transport_emissions s * 365 / 30,
      ''food_emissions_kg'' \<mapsto> food_emissions s * 365 / 30,
      ''energy_emissions_kg'' \<mapsto> energy_emissions s * 365 / 30]"

text \<open>
  The feature pipeline of the endpoint: window, aggregation, dictionary. \<open>now\<close> is
  \<^verbatim>\<open>datetime.now(timezone.utc)\<close>.
\<close>

definition extract_features :: "int \<Rightarrow> activity list \<Rightarrow> (string \<rightharpoonup> real)" where
  "extract_features now all_activities =
     user_emission_data_of (aggregate (recent_activities now all_activities))"

record recommendations_response =
  user_archetype :: string
  recommendations :: "recommendation list"
  total_potential_savings_kg :: real

text \<open>The third loop: each rule recommendation with its description sent through the collaborator.\<close>

definition enhance :: "gemini \<Rightarrow> recommendation \<Rightarrow> recommendation" where
  "enhance gemini rec =
     (let enhanced_description =
            generate_recommendation_text gemini (title rec @ '': '' @ description rec)
      in \<lparr>title = title rec,
          description = enhanced_description,
          estimated_savings_kg = estimated_savings_kg rec,
          category = category rec,
          priority = priority rec\<rparr>)"

text \<open>
  The dictionary the endpoint builds holds numbers, the amounts of the activities being
  reals; the classifier receives the same dictionary.
\<close>

definition finite_values :: "(string \<rightharpoonup> real) \<Rightarrow> (string \<rightharpoonup> pyfloat)" where
  "finite_values user_emission_data = map_option Finite \<circ> user_emission_data"

text \<open>
  \<^verbatim>\<open>get_recommendations\<close>. \<open>all_activities\<close> is what \<^verbatim>\<open>get_activities()\<close> returned, \<open>dir\<close> the
  model directory, \<open>gemini\<close> the collaborator and \<open>now\<close> the clock. An exception that
  nothing catches is \<open>Inl\<close>.
\<close>

definition get_recommendations ::
    "py_format \<Rightarrow> model_dir \<Rightarrow> gemini \<Rightarrow> int \<Rightarrow> activity list \<Rightarrow> error + recommendations_response" where
  "get_recommendations fmt dir gemini now all_activities =
     (if all_activities = [] then
        Inr \<lparr>user_archetype = ''Unknown'',
             recommendations =
               [\<lparr>title = ''Start Logging Activities'',
                 description = ''Begin logging your daily activities to receive personalized recommendations.'',
                 estimated_savings_kg = 0,
                 category = ''general'',
                 priority = ''low''\<rparr>],
             total_potential_savings_kg = 0\<rparr>
      else
        (let user_emission_data = extract_features now all_activities
         in case classify_user_archetype dir (finite_values user_emission_data) of
              Inl e \<Rightarrow> Inl e
            | Inr archetype_result \<Rightarrow>
                (let archetype = (case archetype_result of
                                    Some result \<Rightarrow> class_archetype result
                                  | None \<Rightarrow> ''Unknown'');
                     rule_recommendations =
                       generate_rule_based_recommendations fmt user_emission_data archetype;
                     enhanced_recommendations = map (enhance gemini) rule_recommendations;
                     total_savings = sum_list (map estimated_savings_kg enhanced_recommendations)
                 in Inr \<lparr>user_archetype = archetype,
                         recommendations = enhanced_recommendations,
                         total_potential_savings_kg = total_savings\<rparr>)))"


section \<open>The labelling cascade in the words of the specification\<close>

text \<open>
  The ratio of a cluster for one emission category: the mean of the category over the
  members divided by the mean of the total over the members. The four emission sources
  in the order of enumeration, and the dominant one: the source whose ratio is largest,
  the earliest such source when several are.
\<close>

definition ratio_of_means :: "(user_row \<Rightarrow> real) \<Rightarrow> user_row list \<Rightarrow> real" where
  "ratio_of_means part cluster_data =
     mean (map part cluster_data) / mean (map total_annual_emissions_kg cluster_data)"

datatype source = Transport | Food | Energy | Flight

fun source_name :: "source \<Rightarrow> string" where
  "source_name Transport = ''transport''"
| "source_name Food = ''food''"
| "source_name Energy = ''energy''"
| "source_name Flight = ''flight''"

definition spec_dominant :: "real \<Rightarrow> real \<Rightarrow> real \<Rightarrow> real \<Rightarrow> source" where
  "spec_dominant tr fo en fl =
     (if fo \<le> tr \<and> en \<le> tr \<and> fl \<le> tr then Transport
      else if en \<le> fo \<and> fl \<le> fo then Food
      else if fl \<le> en then Energy
      else Flight)"

text \<open>The rules of the cascade, top to bottom; the first rule whose guard holds gives the label.\<close>

definition spec_rules ::
    "real \<Rightarrow> real \<Rightarrow> real \<Rightarrow> real \<Rightarrow> real \<Rightarrow> real \<Rightarrow> real \<Rightarrow> (bool \<times> string) list" where
  "spec_rules mean_total tr fo en fl mean_electricity mean_meat =
     [(mean_total < 6000, ''Low Total Emissions''),
      (spec_dominant tr fo en fl = Transport \<and> tr > 0.30 \<and> tr > 1.1 * en, ''High Transportation''),
      (spec_dominant tr fo en fl = Food \<and> fo > 0.20, ''High Food Emissions''),
      (spec_dominant tr fo en fl = Energy \<and> mean_electricity > 100, ''Very High Energy Usage''),
      (spec_dominant tr fo en fl = Energy \<and> mean_meat > 8, ''High Energy & Food Usage''),
      (spec_dominant tr fo en fl = Energy \<and> mean_total < 12000, ''Moderate Energy Usage''),
      (spec_dominant tr fo en fl = Energy, ''High Energy Usage''),
      (spec_dominant tr fo en fl = Flight \<and> fl > 0.15, ''High Flight Emissions''),
      (Max {tr, fo, en} < 0.50, ''Balanced Emissions''),
      (True, ''High Energy Usage'')]"

fun first_match :: "(bool \<times> string) list \<Rightarrow> string option" where
  "first_match [] = None"
| "first_match ((guard, label) # rules) = (if guard then Some label else first_match rules)"

definition spec_archetype :: "real \<Rightarrow> real \<Rightarrow> real \<Rightarrow> real \<Rightarrow> real \<Rightarrow> real \<Rightarrow> real \<Rightarrow> string option" where
  "spec_archetype mean_total tr fo en fl mean_electricity mean_meat =
     first_match (spec_rules mean_total tr fo en fl mean_electricity mean_meat)"


section \<open>A predicate on recommendations\<close>

text \<open>
  A recommendation of the rule engine is either one of the three computed ones, with
  strictly positive savings, or one of the two fixed ones, with savings zero.
\<close>

definition savings_ok :: "recommendation \<Rightarrow> bool" where
  "savings_ok r =
     ((title r \<in> {''Reduce Daily Driving'', ''Reduce Meat Consumption'', ''Reduce Energy Consumption''}
        \<and> 0 < estimated_savings_kg r)
      \<or> (title r \<in> {''Maintain Low Emissions'', ''Track Your Progress''}
        \<and> estimated_savings_kg r = 0))"


section \<open>A small trained model\<close>

text \<open>
  A fitted \<^verbatim>\<open>StandardScaler\<close> and \<^verbatim>\<open>KMeans\<close> as scikit-learn applies them to one row:
  z-scores with the stored means and scales, then the index of the nearest centre, the
  first one when several are equally near.
\<close>

definition standard_scaler :: "real list \<Rightarrow> real list \<Rightarrow> scaler" where
  "standard_scaler means scales x = map (\<lambda>(xi, m, s). (xi - m) / s) (zip x (zip means scales))"

definition squared_distance :: "real list \<Rightarrow> real list \<Rightarrow> real" where
  "squared_distance x c = sum_list (map (\<lambda>(xi, ci). (xi - ci)\<^sup>2) (zip x c))"

fun argmin_from :: "real list \<Rightarrow> int \<Rightarrow> int \<Rightarrow> real \<Rightarrow> int" where
  "argmin_from [] i best_i best = best_i"
| "argmin_from (d # ds) i best_i best =
     (if d < best then argmin_from ds (i + 1) i d else argmin_from ds (i + 1) best_i best)"

definition nearest_centroid :: "real list list \<Rightarrow> kmeans" where
  "nearest_centroid cluster_centers x =
     (case map (squared_distance x) cluster_centers of
        [] \<Rightarrow> 0
      | d # ds \<Rightarrow> argmin_from ds 1 0 d)"

text \<open>
  Two synthetic users, a long-distance driver and a low emitter, clustered into two
  clusters of one member each: the scaler holds the column means and deviations of the
  two feature rows (scale 1 for the constant flights column), the centres are the two
  scaled rows.
\<close>

definition driver_row :: user_row where
  "driver_row = synthetic_user 0 40 5 5 25 8 0"

definition low_row :: user_row where
  "low_row = synthetic_user 1 10 2 2 10 3 0"

definition example_df :: "user_row list" where
  "example_df = [driver_row, low_row]"

definition example_scaler :: scaler where
  "example_scaler =
     standard_scaler [25, 3.5, 17.5, 5.5, 0, 3750.375, 728, 3543.55]
                     [15, 1.5, 7.5, 2.5, 1, 2250.225, 312, 1527.75]"

definition example_kmeans :: kmeans where
  "example_kmeans = nearest_centroid [[1, 1, 1, 1, 0, 1, 1, 1], [-1, -1, -1, -1, 0, -1, -1, -1]]"

definition example_descriptions :: cluster_descriptions where
  "example_descriptions = dumped_descriptions (analyze_clusters example_df [0, 1] 2)"

definition example_model_dir :: model_dir where
  "example_model_dir =
     \<lparr>kmeans_pkl = FileHolds example_kmeans,
      scaler_pkl = FileHolds example_scaler,
      cluster_descriptions_json = FileHolds example_descriptions\<rparr>"


text \<open>
  Two states of the model directory without a usable model: training never ran, and
  training was interrupted while it wrote the first file.
\<close>

definition missing_model_dir :: model_dir where
  "missing_model_dir =
     \<lparr>kmeans_pkl = FileMissing, scaler_pkl = FileMissing, cluster_descriptions_json = FileMissing\<rparr>"

definition interrupted_model_dir :: model_dir where
  "interrupted_model_dir =
     \<lparr>kmeans_pkl = FileCorrupt, scaler_pkl = FileMissing, cluster_descriptions_json = FileMissing\<rparr>"

text \<open>
  A clock reading, a car trip logged long before the window, and a trip logged now with
  a negative amount.
\<close>

definition example_now :: int where
  "example_now = 1762214400000000"

definition old_activity :: activity where
  "old_activity =
     \<lparr>date = Some 0, activity_category = ''transportation'', activity_subtype = ''car'',
      amount = 10, unit = ''miles'', co2e_kg = 4.11\<rparr>"

definition negative_activity :: activity where
  "negative_activity =
     \<lparr>date = Some example_now, activity_category = ''transportation'', activity_subtype = ''car'',
      amount = - 30, unit = ''miles'', co2e_kg = - 12.33\<rparr>"

text \<open>
  A printing of floats for the examples: one decimal place in exact arithmetic, for both
  f-string forms.
\<close>

definition format_one_decimal :: "real \<Rightarrow> string" where
  "format_one_decimal x =
     (let r = py_round x 1; n = nat \<lfloor>\<bar>r\<bar> * 10\<rfloor>
      in (if r < 0 then ''-'' else []) @ digits (n div 10) @ ''.'' @ digits (n mod 10))"

definition example_format :: py_format where
  "example_format = \<lparr>format_1f = format_one_decimal, format_str = format_one_decimal\<rparr>"


section \<open>Facts about the Python values\<close>

text \<open>\<open>py_in\<close> is the contiguous-sublist relation.\<close>

lemma py_in_sublist: "py_in sub s \<longleftrightarrow> sublist sub s"
  by (induction s) (simp_all add: sublist_Cons_right)

lemma driver_row_eq:
  "driver_row =
     \<lparr>user_id = ''user_0000'', daily_miles_driven = 40, meat_meals_per_week = 5,
      vegetarian_meals_per_week = 5, electricity_kwh_per_day = 25,
      natural_gas_therms_per_month = 8, flights_per_year = 0,
      total_annual_emissions_kg = 12111.9, transport_emissions_kg = 6000.6,
      food_emissions_kg = 1040, energy_emissions_kg = 5071.3, flight_emissions_kg = 0\<rparr>"
  by (simp add: driver_row_def synthetic_user_def py_round_def format_04d_def Let_def
      eval_nat_numeral)

lemma low_row_eq:
  "low_row =
     \<lparr>user_id = ''user_0001'', daily_miles_driven = 10, meat_meals_per_week = 2,
      vegetarian_meals_per_week = 2, electricity_kwh_per_day = 10,
      natural_gas_therms_per_month = 3, flights_per_year = 0,
      total_annual_emissions_kg = 3931.95, transport_emissions_kg = 1500.15,
      food_emissions_kg = 416, energy_emissions_kg = 2015.8, flight_emissions_kg = 0\<rparr>"
  by (simp add: low_row_def synthetic_user_def py_round_def format_04d_def Let_def
      eval_nat_numeral)


lemma py_round_close: "\<bar>py_round x n - x\<bar> \<le> 1 / (2 * 10 ^ n)"
proof -
  define s :: real where "s = 10 ^ n"
  define y where "y = x * s"
  define f where "f = \<lfloor>y\<rfloor>"
  define d where "d = y - of_int f"
  define r :: real where "r = (if d < 1 / 2 then of_int f
          else if 1 / 2 < d then of_int (f + 1)
          else if even f then of_int f else of_int (f + 1))"
  have s_pos: "0 < s" by (simp add: s_def)
  have d0: "0 \<le> d" and d1: "d < 1"
    unfolding d_def f_def by linarith+
  have ry: "\<bar>r - y\<bar> \<le> 1 / 2"
    unfolding r_def using d0 d1 by (auto simp: d_def)
  have "py_round x n = r / s"
    by (simp add: py_round_def Let_def r_def d_def f_def y_def s_def)
  moreover have "r / s - x = (r - y) / s"
    using s_pos by (simp add: y_def field_simps)
  ultimately have "\<bar>py_round x n - x\<bar> = \<bar>(r - y) / s\<bar>"
    by simp
  also have "\<dots> = \<bar>r - y\<bar> / s"
    using s_pos by simp
  also have "\<dots> \<le> (1 / 2) / s"
    using ry s_pos by (intro divide_right_mono) simp_all
  finally show ?thesis by (simp add: s_def)
qed


section \<open>The archetype label of a cluster\<close>

text \<open>
  The scan of \<^verbatim>\<open>max(ratios, key=ratios.get)\<close> over the four ratios returns the dominant
  source of the specification, with its ratio.
\<close>

lemma py_max_item_ratios:
  "py_max_item [(''transport'', tr), (''food'', fo), (''energy'', en), (''flight'', fl)] =
     (case spec_dominant tr fo en fl of
        Transport \<Rightarrow> (''transport'', tr)
      | Food \<Rightarrow> (''food'', fo)
      | Energy \<Rightarrow> (''energy'', en)
      | Flight \<Rightarrow> (''flight'', fl))"
  by (auto simp: spec_dominant_def)

text \<open>
  \<open>spec_dominant\<close> is the argmax with ties to the earlier source: no ratio is larger
  than the dominant one, and every source listed before it has a strictly smaller ratio.
\<close>

lemma spec_dominant_argmax:
  "spec_dominant tr fo en fl = Transport \<longleftrightarrow> fo \<le> tr \<and> en \<le> tr \<and> fl \<le> tr"
  "spec_dominant tr fo en fl = Food \<longleftrightarrow> tr < fo \<and> en \<le> fo \<and> fl \<le> fo"
  "spec_dominant tr fo en fl = Energy \<longleftrightarrow> tr < en \<and> fo < en \<and> fl \<le> en"
  "spec_dominant tr fo en fl = Flight \<longleftrightarrow> tr < fl \<and> fo < fl \<and> en < fl"
  by (auto simp: spec_dominant_def)

lemma analyze_cluster_archetype:
  "Some (archetype (analyze_cluster cluster_data)) =
     spec_archetype (mean (map total_annual_emissions_kg cluster_data))
       (ratio_of_means transport_emissions_kg cluster_data)
       (ratio_of_means food_emissions_kg cluster_data)
       (ratio_of_means energy_emissions_kg cluster_data)
       (ratio_of_means flight_emissions_kg cluster_data)
       (mean (map electricity_kwh_per_day cluster_data))
       (mean (map meat_meals_per_week cluster_data))"
  unfolding analyze_cluster_def Let_def spec_archetype_def spec_rules_def ratio_of_means_def
    py_max_item_ratios
  by (cases "spec_dominant
       (mean (map transport_emissions_kg cluster_data) / mean (map total_annual_emissions_kg cluster_data))
       (mean (map food_emissions_kg cluster_data) / mean (map total_annual_emissions_kg cluster_data))
       (mean (map energy_emissions_kg cluster_data) / mean (map total_annual_emissions_kg cluster_data))
       (mean (map flight_emissions_kg cluster_data) / mean (map total_annual_emissions_kg cluster_data))")
     (simp_all add: mult.commute)

lemma analyze_cluster_dominant:
  "dominant_source (analyze_cluster cluster_data) =
     source_name (spec_dominant
       (ratio_of_means transport_emissions_kg cluster_data)
       (ratio_of_means food_emissions_kg cluster_data)
       (ratio_of_means energy_emissions_kg cluster_data)
       (ratio_of_means flight_emissions_kg cluster_data))"
  unfolding analyze_cluster_def Let_def ratio_of_means_def py_max_item_ratios
  by (simp split: source.split)

lemma analyze_clusters_lookup:
  "cid < n_clusters \<Longrightarrow>
     map_of (analyze_clusters df labels n_clusters) cid =
       Some (analyze_cluster (cluster_rows df labels cid))"
  unfolding analyze_clusters_def
  by (simp add: map_of_map_restrict)

text \<open>
  C1. For every cluster that training describes (cluster \<open>cid\<close> of \<open>n_clusters\<close>, with
  members \<open>cluster_data\<close>, at least one), the stored archetype is the label that the
  cascade of the specification gives, first matching rule winning, to the cluster's mean
  total, its four ratios of means, its mean electricity and its mean meat meals; and the
  stored dominant source is the argmax of the four ratios, the earliest source
  winning a tie.
\<close>

theorem archetype_cascade:
  assumes "cid < n_clusters"
    and "cluster_data = cluster_rows df labels cid"
    and "cluster_data \<noteq> []"
  shows "\<exists>d. map_of (analyze_clusters df labels n_clusters) cid = Some d
           \<and> Some (archetype d) =
               spec_archetype (mean (map total_annual_emissions_kg cluster_data))
                 (ratio_of_means transport_emissions_kg cluster_data)
                 (ratio_of_means food_emissions_kg cluster_data)
                 (ratio_of_means energy_emissions_kg cluster_data)
                 (ratio_of_means flight_emissions_kg cluster_data)
                 (mean (map electricity_kwh_per_day cluster_data))
                 (mean (map meat_meals_per_week cluster_data))
           \<and> dominant_source d =
               source_name (spec_dominant
                 (ratio_of_means transport_emissions_kg cluster_data)
                 (ratio_of_means food_emissions_kg cluster_data)
                 (ratio_of_means energy_emissions_kg cluster_data)
                 (ratio_of_means flight_emissions_kg cluster_data))"
  using assms analyze_clusters_lookup [of cid n_clusters df labels]
    analyze_cluster_archetype [of cluster_data] analyze_cluster_dominant [of cluster_data]
  by simp

theorem archetype_cascade_witness:
  "\<exists>d. map_of (analyze_clusters example_df [0, 1] 2) 0 = Some d
       \<and> archetype d = ''High Transportation''
       \<and> dominant_source d = ''transport''"
proof -
  have rows: "[driver_row] = cluster_rows example_df [0, 1] 0"
    by (simp add: cluster_rows_def example_df_def)
  have "\<exists>d. map_of (analyze_clusters example_df [0, 1] 2) 0 = Some d
           \<and> Some (archetype d) =
               spec_archetype (mean (map total_annual_emissions_kg [driver_row]))
                 (ratio_of_means transport_emissions_kg [driver_row])
                 (ratio_of_means food_emissions_kg [driver_row])
                 (ratio_of_means energy_emissions_kg [driver_row])
                 (ratio_of_means flight_emissions_kg [driver_row])
                 (mean (map electricity_kwh_per_day [driver_row]))
                 (mean (map meat_meals_per_week [driver_row]))
           \<and> dominant_source d =
               source_name (spec_dominant
                 (ratio_of_means transport_emissions_kg [driver_row])
                 (ratio_of_means food_emissions_kg [driver_row])
                 (ratio_of_means energy_emissions_kg [driver_row])
                 (ratio_of_means flight_emissions_kg [driver_row]))"
    by (rule archetype_cascade [OF _ rows]) simp_all
  then show ?thesis
    by (simp add: driver_row_eq ratio_of_means_def mean_def spec_archetype_def spec_rules_def
        spec_dominant_def)
qed


section \<open>The emission-source ratios of a cluster\<close>

lemma mean_sum4:
  "mean (map f xs) + mean (map g xs) + mean (map h xs) + mean (map k xs)
     = mean (map (\<lambda>x. f x + g x + h x + k x) xs)"
  by (simp add: mean_def sum_list_addf add_divide_distrib)

lemma mean_mono:
  assumes "\<forall>x \<in> set xs. f x \<le> g x"
  shows "mean (map f xs) \<le> mean (map g xs)"
proof -
  have "sum_list (map f xs) \<le> sum_list (map g xs)"
    using assms by (intro sum_list_mono) simp
  then show ?thesis
    by (simp add: mean_def divide_right_mono)
qed

lemma ratios_sum:
  assumes pos: "0 < mean (map total_annual_emissions_kg cluster_data)"
    and wf: "\<forall>row \<in> set cluster_data.
              transport_emissions_kg row + food_emissions_kg row + energy_emissions_kg row
                + flight_emissions_kg row \<le> total_annual_emissions_kg row"
  shows "ratio_of_means transport_emissions_kg cluster_data
           + ratio_of_means food_emissions_kg cluster_data
           + ratio_of_means energy_emissions_kg cluster_data
           + ratio_of_means flight_emissions_kg cluster_data \<le> 1"
proof -
  let ?T = "mean (map total_annual_emissions_kg cluster_data)"
  have "mean (map transport_emissions_kg cluster_data) + mean (map food_emissions_kg cluster_data)
          + mean (map energy_emissions_kg cluster_data) + mean (map flight_emissions_kg cluster_data)
        \<le> ?T"
    unfolding mean_sum4 using wf by (rule mean_mono)
  then have "(mean (map transport_emissions_kg cluster_data) + mean (map food_emissions_kg cluster_data)
          + mean (map energy_emissions_kg cluster_data) + mean (map flight_emissions_kg cluster_data)) / ?T
        \<le> 1"
    using pos by (simp add: divide_le_eq)
  then show ?thesis
    by (simp add: ratio_of_means_def add_divide_distrib)
qed

lemma stored_ratios:
  "transport_ratio (analyze_cluster cluster_data)
     = py_round (ratio_of_means transport_emissions_kg cluster_data) 3"
  "food_ratio (analyze_cluster cluster_data)
     = py_round (ratio_of_means food_emissions_kg cluster_data) 3"
  "energy_ratio (analyze_cluster cluster_data)
     = py_round (ratio_of_means energy_emissions_kg cluster_data) 3"
  "flight_ratio (analyze_cluster cluster_data)
     = py_round (ratio_of_means flight_emissions_kg cluster_data) 3"
  by (simp_all add: analyze_cluster_def Let_def ratio_of_means_def)


text \<open>
  C2, as the code has it. For every cluster with at least one member and a positive
  mean total, each stored ratio is the ratio of means of its category (mean of the
  category over the members divided by the mean of the total over the members) rounded
  to three decimals, so it lies within 0.0005 of that ratio; and when every member's
  total is at least the sum of its four categories, the four ratios of means sum to at
  most 1 and the four stored ratios to at most 1.002.
\<close>

theorem stored_ratios_rounded:
  assumes "cluster_data \<noteq> []"
    and "0 < mean (map total_annual_emissions_kg cluster_data)"
  shows "transport_ratio (analyze_cluster cluster_data)
           = py_round (ratio_of_means transport_emissions_kg cluster_data) 3
       \<and> food_ratio (analyze_cluster cluster_data)
           = py_round (ratio_of_means food_emissions_kg cluster_data) 3
       \<and> energy_ratio (analyze_cluster cluster_data)
           = py_round (ratio_of_means energy_emissions_kg cluster_data) 3
       \<and> flight_ratio (analyze_cluster cluster_data)
           = py_round (ratio_of_means flight_emissions_kg cluster_data) 3
       \<and> \<bar>transport_ratio (analyze_cluster cluster_data)
            - ratio_of_means transport_emissions_kg cluster_data\<bar> \<le> 0.0005
       \<and> \<bar>food_ratio (analyze_cluster cluster_data)
            - ratio_of_means food_emissions_kg cluster_data\<bar> \<le> 0.0005
       \<and> \<bar>energy_ratio (analyze_cluster cluster_data)
            - ratio_of_means energy_emissions_kg cluster_data\<bar> \<le> 0.0005
       \<and> \<bar>flight_ratio (analyze_cluster cluster_data)
            - ratio_of_means flight_emissions_kg cluster_data\<bar> \<le> 0.0005
       \<and> ((\<forall>row \<in> set cluster_data.
              transport_emissions_kg row + food_emissions_kg row + energy_emissions_kg row
                + flight_emissions_kg row \<le> total_annual_emissions_kg row)
            \<longrightarrow> ratio_of_means transport_emissions_kg cluster_data
                  + ratio_of_means food_emissions_kg cluster_data
                  + ratio_of_means energy_emissions_kg cluster_data
                  + ratio_of_means flight_emissions_kg cluster_data \<le> 1
                \<and> transport_ratio (analyze_cluster cluster_data)
                  + food_ratio (analyze_cluster cluster_data)
                  + energy_ratio (analyze_cluster cluster_data)
                  + flight_ratio (analyze_cluster cluster_data) \<le> 1.002)"
proof -
  let ?d = "analyze_cluster cluster_data"
  let ?tr = "ratio_of_means transport_emissions_kg cluster_data"
  let ?fo = "ratio_of_means food_emissions_kg cluster_data"
  let ?en = "ratio_of_means energy_emissions_kg cluster_data"
  let ?fl = "ratio_of_means flight_emissions_kg cluster_data"
  have close: "\<bar>py_round x 3 - x\<bar> \<le> 1 / 2000" for x
    using py_round_close [of x 3] by simp
  have up: "py_round x 3 \<le> x + 1 / 2000" for x
    using close [of x] by linarith
  have tr: "\<bar>transport_ratio ?d - ?tr\<bar> \<le> 0.0005"
    and fo: "\<bar>food_ratio ?d - ?fo\<bar> \<le> 0.0005"
    and en: "\<bar>energy_ratio ?d - ?en\<bar> \<le> 0.0005"
    and fl: "\<bar>flight_ratio ?d - ?fl\<bar> \<le> 0.0005"
    unfolding stored_ratios using close by simp_all
  have sum: "?tr + ?fo + ?en + ?fl \<le> 1
             \<and> transport_ratio ?d + food_ratio ?d + energy_ratio ?d + flight_ratio ?d \<le> 1.002"
    if wf: "\<forall>row \<in> set cluster_data.
              transport_emissions_kg row + food_emissions_kg row + energy_emissions_kg row
                + flight_emissions_kg row \<le> total_annual_emissions_kg row"
  proof -
    have le1: "?tr + ?fo + ?en + ?fl \<le> 1"
      using assms(2) wf by (rule ratios_sum)
    have "py_round ?tr 3 + py_round ?fo 3 + py_round ?en 3 + py_round ?fl 3 \<le> 1 + 4 / 2000"
      using le1 up [of ?tr] up [of ?fo] up [of ?en] up [of ?fl] by linarith
    with le1 show ?thesis by (simp add: stored_ratios)
  qed
  show ?thesis
    using tr fo en fl sum by (simp add: stored_ratios)
qed

theorem stored_ratios_rounded_witness:
  "[driver_row] \<noteq> []
   \<and> 0 < mean (map total_annual_emissions_kg [driver_row])
   \<and> transport_emissions_kg driver_row + food_emissions_kg driver_row
       + energy_emissions_kg driver_row + flight_emissions_kg driver_row
       \<le> total_annual_emissions_kg driver_row
   \<and> ratio_of_means transport_emissions_kg [driver_row] = 6000.6 / 12111.9
   \<and> transport_ratio (analyze_cluster [driver_row]) = 0.495
   \<and> \<bar>transport_ratio (analyze_cluster [driver_row])
        - ratio_of_means transport_emissions_kg [driver_row]\<bar> \<le> 0.0005
   \<and> transport_ratio (analyze_cluster [driver_row]) + food_ratio (analyze_cluster [driver_row])
       + energy_ratio (analyze_cluster [driver_row]) + flight_ratio (analyze_cluster [driver_row])
       \<le> 1.002"
proof -
  have ne: "[driver_row] \<noteq> []" by simp
  have pos: "0 < mean (map total_annual_emissions_kg [driver_row])"
    by (simp add: mean_def driver_row_eq)
  have wf: "transport_emissions_kg driver_row + food_emissions_kg driver_row
       + energy_emissions_kg driver_row + flight_emissions_kg driver_row
       \<le> total_annual_emissions_kg driver_row"
    by (simp add: driver_row_eq)
  have r: "ratio_of_means transport_emissions_kg [driver_row] = 6000.6 / 12111.9"
    by (simp add: ratio_of_means_def mean_def driver_row_eq)
  have v: "py_round (6000.6 / 12111.9) 3 = 0.495"
    by (simp add: py_round_def Let_def)
  show ?thesis
    using stored_ratios_rounded [OF ne pos] wf pos r v by simp
qed

text \<open>
  The stored ratios are not the ratios of means, and their sum can exceed 1: for the
  cluster of the one generated row \<open>low_row\<close>, whose total is the sum of its four
  categories, the stored transport ratio is 0.382, the ratio of means being
  1500.15 / 3931.95, and the four stored ratios sum to 1.001.
\<close>

theorem stored_ratio_counterexample:
  "[low_row] \<noteq> []
   \<and> 0 < mean (map total_annual_emissions_kg [low_row])
   \<and> transport_emissions_kg low_row + food_emissions_kg low_row + energy_emissions_kg low_row
       + flight_emissions_kg low_row = total_annual_emissions_kg low_row
   \<and> mean (map transport_emissions_kg [low_row])
       / mean (map total_annual_emissions_kg [low_row]) = 1500.15 / 3931.95
   \<and> transport_ratio (analyze_cluster [low_row]) = 0.382
   \<and> transport_ratio (analyze_cluster [low_row])
       \<noteq> mean (map transport_emissions_kg [low_row])
           / mean (map total_annual_emissions_kg [low_row])
   \<and> transport_ratio (analyze_cluster [low_row]) + food_ratio (analyze_cluster [low_row])
       + energy_ratio (analyze_cluster [low_row]) + flight_ratio (analyze_cluster [low_row])
       = 1.001"
  by (simp add: analyze_cluster_def Let_def mean_def low_row_eq py_round_def)

subsection \<open>Rows of the generator\<close>

text \<open>
  The generator rounds the total and each category to two decimals separately, so in a
  generated row the four categories can exceed the total, by at most 0.025; the row
  below is one where they do.
\<close>

lemma synthetic_user_parts_bound:
  fixes row :: user_row
  assumes "row = synthetic_user i miles meat veg kwh therms n_flights"
  shows "transport_emissions_kg row + food_emissions_kg row + energy_emissions_kg row
           + flight_emissions_kg row \<le> total_annual_emissions_kg row + 0.025"
proof -
  have close: "\<bar>py_round x 2 - x\<bar> \<le> 1 / 200" for x
    using py_round_close [of x 2] by simp
  have lo: "x - 1 / 200 \<le> py_round x 2" and hi: "py_round x 2 \<le> x + 1 / 200" for x
    using close [of x] by linarith+
  define t where "t = miles * 365 * 0.411"
  define f where "f = (real meat * 3.5 + real veg * 0.5) * 52"
  define e where "e = (kwh * 0.5 * 365) + (therms * 5.3 * 12)"
  define a where "a = real n_flights * 900"
  have "py_round t 2 + py_round f 2 + py_round e 2 + py_round a 2
          \<le> py_round (t + f + e + a) 2 + 5 / 200"
    using hi [of t] hi [of f] hi [of e] hi [of a] lo [of "t + f + e + a"] by linarith
  then show ?thesis
    by (simp add: assms synthetic_user_def Let_def t_def f_def e_def a_def)
qed

lemma synthetic_user_parts_exceed_total:
  "transport_emissions_kg (synthetic_user 2 20.4 5 5 20 2.01 0)
     + food_emissions_kg (synthetic_user 2 20.4 5 5 20 2.01 0)
     + energy_emissions_kg (synthetic_user 2 20.4 5 5 20 2.01 0)
     + flight_emissions_kg (synthetic_user 2 20.4 5 5 20 2.01 0) = 7878.15
   \<and> total_annual_emissions_kg (synthetic_user 2 20.4 5 5 20 2.01 0) = 7878.14"
  by (simp add: synthetic_user_def py_round_def Let_def)


section \<open>The feature schema of training and inference\<close>

text \<open>
  The training side selects the eight columns of a row in the order of its list, and
  the inference side reads the same values out of a dictionary holding the row.
\<close>

lemma select_feature_columns:
  "select_columns (columns row) train_feature_cols =
     Some [daily_miles_driven row, meat_meals_per_week row, electricity_kwh_per_day row,
           natural_gas_therms_per_month row, flights_per_year row, transport_emissions_kg row,
           food_emissions_kg row, energy_emissions_kg row]"
  by (simp add: train_feature_cols_def columns_def)

lemma feature_vector_columns:
  "feature_vector (columns row) =
     [daily_miles_driven row, meat_meals_per_week row, electricity_kwh_per_day row,
      natural_gas_therms_per_month row, flights_per_year row, transport_emissions_kg row,
      food_emissions_kg row, energy_emissions_kg row]"
  by (simp add: feature_vector_def classify_feature_cols_def columns_def dict_get_def)

lemma prepare_features_X_rows:
  "prepare_features_X df = Some (map (\<lambda>row. feature_vector (columns row)) df)"
  by (induction df) (simp_all add: select_feature_columns feature_vector_columns)

text \<open>
  C4. The feature-column list of the training pipeline and the one of the inference
  classifier are the same list, the same eight names in the same order, and each side
  builds its vector from its list: the inference vector of a dictionary holds the
  dictionary's values under the names of the training list, in that order, and every
  row of the training matrix is the inference vector of the dictionary of that row.
\<close>

theorem feature_cols_agree:
  "train_feature_cols = classify_feature_cols
   \<and> classify_feature_cols =
       [''daily_miles_driven'', ''meat_meals_per_week'', ''electricity_kwh_per_day'',
        ''natural_gas_therms_per_month'', ''flights_per_year'', ''transport_emissions_kg'',
        ''food_emissions_kg'', ''energy_emissions_kg'']
   \<and> length train_feature_cols = 8
   \<and> distinct train_feature_cols
   \<and> feature_vector d = map (\<lambda>col. dict_get d col 0) train_feature_cols
   \<and> select_columns (columns row) train_feature_cols =
       Some [daily_miles_driven row, meat_meals_per_week row, electricity_kwh_per_day row,
             natural_gas_therms_per_month row, flights_per_year row, transport_emissions_kg row,
             food_emissions_kg row, energy_emissions_kg row]
   \<and> select_columns (columns row) train_feature_cols = Some (feature_vector (columns row))
   \<and> prepare_features_X df = Some (map (\<lambda>row. feature_vector (columns row)) df)"
proof -
  have same: "train_feature_cols = classify_feature_cols"
    by (simp add: train_feature_cols_def classify_feature_cols_def)
  have lit: "classify_feature_cols =
       [''daily_miles_driven'', ''meat_meals_per_week'', ''electricity_kwh_per_day'',
        ''natural_gas_therms_per_month'', ''flights_per_year'', ''transport_emissions_kg'',
        ''food_emissions_kg'', ''energy_emissions_kg'']"
    by (simp add: classify_feature_cols_def)
  have len: "length train_feature_cols = 8"
    by (simp add: train_feature_cols_def)
  have dis: "distinct train_feature_cols"
    by (simp add: train_feature_cols_def)
  have vec: "feature_vector d = map (\<lambda>col. dict_get d col 0) train_feature_cols"
    unfolding same by (rule feature_vector_def)
  have sel: "select_columns (columns row) train_feature_cols = Some (feature_vector (columns row))"
    unfolding feature_vector_columns by (rule select_feature_columns)
  show ?thesis
    by (intro conjI; (rule same lit len dis vec sel select_feature_columns prepare_features_X_rows))
qed

theorem feature_cols_agree_witness:
  "feature_vector (columns driver_row) = [40, 5, 25, 8, 0, 6000.6, 1040, 5071.3]
   \<and> prepare_features_X example_df =
       Some [[40, 5, 25, 8, 0, 6000.6, 1040, 5071.3], [10, 2, 10, 3, 0, 1500.15, 416, 2015.8]]"
proof -
  have d: "feature_vector (columns driver_row) = [40, 5, 25, 8, 0, 6000.6, 1040, 5071.3]"
    by (simp add: feature_vector_columns driver_row_eq)
  have l: "feature_vector (columns low_row) = [10, 2, 10, 3, 0, 1500.15, 416, 2015.8]"
    by (simp add: feature_vector_columns low_row_eq)
  have "prepare_features_X example_df = Some (map (\<lambda>row. feature_vector (columns row)) example_df)"
    using feature_cols_agree [of "Map.empty :: string \<rightharpoonup> real" driver_row example_df] by blast
  then show ?thesis
    using d l by (simp add: example_df_def)
qed


section \<open>The rule engine\<close>

lemma transportation_block_keeps: "set recs \<subseteq> set (transportation_block fmt d a recs)"
  by (auto simp: transportation_block_def Let_def)

lemma food_block_keeps: "set recs \<subseteq> set (food_block fmt d a recs)"
  by (auto simp: food_block_def Let_def)

lemma energy_block_keeps: "set recs \<subseteq> set (energy_block fmt d a recs)"
  by (auto simp: energy_block_def Let_def)

lemma low_emissions_block_keeps: "set recs \<subseteq> set (low_emissions_block a recs)"
  by (auto simp: low_emissions_block_def)

lemma general_block_keeps: "set recs \<subseteq> set (general_block recs)"
  by (auto simp: general_block_def)

lemma blocks_keep:
  "set (transportation_block fmt d a [])
     \<subseteq> set (generate_rule_based_recommendations fmt d a)"
  unfolding generate_rule_based_recommendations_def Let_def
  using food_block_keeps energy_block_keeps low_emissions_block_keeps general_block_keeps
  by (meson subset_trans)

text \<open>
  C3. For every feature dictionary and archetype string: when the archetype contains
  "Transportation" or \<^verbatim>\<open>transport_emissions_kg\<close> exceeds 2000, and \<^verbatim>\<open>daily_miles_driven\<close>
  exceeds 30, the output of the rule engine contains a "Reduce Daily Driving"
  recommendation whose estimated savings are (miles - 25) * 0.411 * 7 and whose
  priority is "high". For the archetype "High Transportation" and 50 miles a day the
  savings are 71.925.
\<close>

theorem reduce_driving_rule:
  assumes "py_in ''Transportation'' archetype_name
           \<or> dict_get user_emission_data ''transport_emissions_kg'' 0 > 2000"
    and "dict_get user_emission_data ''daily_miles_driven'' 0 > 30"
  shows "\<exists>r \<in> set (generate_rule_based_recommendations fmt user_emission_data archetype_name).
           title r = ''Reduce Daily Driving''
           \<and> estimated_savings_kg r
               = (dict_get user_emission_data ''daily_miles_driven'' 0 - 25) * 0.411 * 7
           \<and> priority r = ''high''"
proof -
  let ?r = "\<lparr>title = ''Reduce Daily Driving'',
             description = ''Reduce driving by ''
               @ format_1f fmt (dict_get user_emission_data ''daily_miles_driven'' 0 - 25)
               @ '' miles/week'',
             estimated_savings_kg = (dict_get user_emission_data ''daily_miles_driven'' 0 - 25) * 0.411 * 7,
             category = ''transportation'',
             priority = ''high''\<rparr>"
  have "transportation_block fmt user_emission_data archetype_name [] = [?r]"
    using assms by (simp add: transportation_block_def Let_def)
  then have "?r \<in> set (generate_rule_based_recommendations fmt user_emission_data archetype_name)"
    using blocks_keep [of fmt user_emission_data archetype_name] by auto
  then show ?thesis
    by (intro bexI [of _ ?r]) simp_all
qed


theorem reduce_driving_rule_witness:
  "\<forall>fmt. \<exists>r \<in> set (generate_rule_based_recommendations fmt [''daily_miles_driven'' \<mapsto> 50]
                      ''High Transportation'').
       title r = ''Reduce Daily Driving'' \<and> estimated_savings_kg r = 71.925 \<and> priority r = ''high''"
proof
  fix fmt
  have a: "py_in ''Transportation'' ''High Transportation''
           \<or> dict_get [''daily_miles_driven'' \<mapsto> (50::real)] ''transport_emissions_kg'' 0 > 2000"
    by simp
  have b: "dict_get [''daily_miles_driven'' \<mapsto> (50::real)] ''daily_miles_driven'' 0 > 30"
    by (simp add: dict_get_def)
  show "\<exists>r \<in> set (generate_rule_based_recommendations fmt [''daily_miles_driven'' \<mapsto> 50]
                      ''High Transportation'').
       title r = ''Reduce Daily Driving'' \<and> estimated_savings_kg r = 71.925 \<and> priority r = ''high''"
    using reduce_driving_rule [OF a b, of fmt] by (simp add: dict_get_def)
qed

subsection \<open>Savings are never negative\<close>

lemma transportation_block_savings:
  "list_all savings_ok recs \<Longrightarrow> list_all savings_ok (transportation_block fmt d a recs)"
  by (simp add: transportation_block_def Let_def savings_ok_def)

lemma food_block_savings:
  "list_all savings_ok recs \<Longrightarrow> list_all savings_ok (food_block fmt d a recs)"
  by (simp add: food_block_def Let_def savings_ok_def)

lemma energy_block_savings:
  "list_all savings_ok recs \<Longrightarrow> list_all savings_ok (energy_block fmt d a recs)"
  by (simp add: energy_block_def Let_def savings_ok_def)

lemma low_emissions_block_savings:
  "list_all savings_ok recs \<Longrightarrow> list_all savings_ok (low_emissions_block a recs)"
  by (simp add: low_emissions_block_def savings_ok_def)

lemma general_block_savings:
  "list_all savings_ok recs \<Longrightarrow> list_all savings_ok (general_block recs)"
  by (simp add: general_block_def savings_ok_def)

lemma rule_engine_savings:
  "list_all savings_ok (generate_rule_based_recommendations fmt d a)"
  unfolding generate_rule_based_recommendations_def Let_def
  by (intro general_block_savings low_emissions_block_savings energy_block_savings
      food_block_savings transportation_block_savings) simp

text \<open>
  C10. For every feature dictionary and archetype string, every recommendation the rule
  engine returns has estimated savings of at least zero: the three computed
  recommendations have strictly positive savings under their guards, and the two fixed
  ones have savings exactly zero.
\<close>

theorem savings_nonnegative:
  "\<forall>r \<in> set (generate_rule_based_recommendations fmt user_emission_data archetype_name).
     0 \<le> estimated_savings_kg r
     \<and> ((title r \<in> {''Reduce Daily Driving'', ''Reduce Meat Consumption'',
                      ''Reduce Energy Consumption''}
           \<and> 0 < estimated_savings_kg r)
        \<or> (title r \<in> {''Maintain Low Emissions'', ''Track Your Progress''}
           \<and> estimated_savings_kg r = 0))"
proof
  fix r
  assume "r \<in> set (generate_rule_based_recommendations fmt user_emission_data archetype_name)"
  then have "savings_ok r"
    using rule_engine_savings [of fmt user_emission_data archetype_name]
    by (simp add: list_all_iff)
  then show "0 \<le> estimated_savings_kg r
     \<and> ((title r \<in> {''Reduce Daily Driving'', ''Reduce Meat Consumption'',
                      ''Reduce Energy Consumption''}
           \<and> 0 < estimated_savings_kg r)
        \<or> (title r \<in> {''Maintain Low Emissions'', ''Track Your Progress''}
           \<and> estimated_savings_kg r = 0))"
    unfolding savings_ok_def by auto
qed

theorem savings_nonnegative_witness:
  "\<forall>fmt. map estimated_savings_kg
           (generate_rule_based_recommendations fmt
              [''daily_miles_driven'' \<mapsto> 50, ''meat_meals_per_week'' \<mapsto> 10,
               ''electricity_kwh_per_day'' \<mapsto> 40]
              ''High Transportation, Food & Energy'') = [71.925, 910, 2737.5]
         \<and> list_all (\<lambda>r. 0 \<le> estimated_savings_kg r)
             (generate_rule_based_recommendations fmt
                [''daily_miles_driven'' \<mapsto> 50, ''meat_meals_per_week'' \<mapsto> 10,
                 ''electricity_kwh_per_day'' \<mapsto> 40]
                ''High Transportation, Food & Energy'')"
proof
  fix fmt
  have "map estimated_savings_kg
           (generate_rule_based_recommendations fmt
              [''daily_miles_driven'' \<mapsto> 50, ''meat_meals_per_week'' \<mapsto> 10,
               ''electricity_kwh_per_day'' \<mapsto> 40]
              ''High Transportation, Food & Energy'') = [71.925, 910, 2737.5]"
    by (simp add: generate_rule_based_recommendations_def transportation_block_def
        food_block_def energy_block_def low_emissions_block_def general_block_def
        dict_get_def Let_def)
  then show "map estimated_savings_kg
           (generate_rule_based_recommendations fmt
              [''daily_miles_driven'' \<mapsto> 50, ''meat_meals_per_week'' \<mapsto> 10,
               ''electricity_kwh_per_day'' \<mapsto> 40]
              ''High Transportation, Food & Energy'') = [71.925, 910, 2737.5]
         \<and> list_all (\<lambda>r. 0 \<le> estimated_savings_kg r)
             (generate_rule_based_recommendations fmt
                [''daily_miles_driven'' \<mapsto> 50, ''meat_meals_per_week'' \<mapsto> 10,
                 ''electricity_kwh_per_day'' \<mapsto> 40]
                ''High Transportation, Food & Energy'')"
    using savings_nonnegative [of fmt
        "[''daily_miles_driven'' \<mapsto> 50, ''meat_meals_per_week'' \<mapsto> 10,
          ''electricity_kwh_per_day'' \<mapsto> 40]" "''High Transportation, Food & Energy''"]
    by (simp add: list_all_iff)
qed


section \<open>The flight feature of the live pipeline\<close>

lemma flights_aggregate_step: "flights (aggregate_step s act) = flights s"
  by (simp add: aggregate_step_def Let_def)

lemma flights_foldl: "flights (foldl aggregate_step s acts) = flights s"
  by (induction acts arbitrary: s) (simp_all add: flights_aggregate_step)

text \<open>
  C9. For every activity history and reference time, the feature pipeline of the
  endpoint outputs \<^verbatim>\<open>flights_per_year = 0\<close>: the counter starts at 0, no activity changes
  it, and it is multiplied by 12 on its way into the dictionary and the feature vector.
\<close>

theorem flights_per_year_zero:
  "flights (aggregate (recent_activities now all_activities)) = 0
   \<and> extract_features now all_activities ''flights_per_year'' = Some 0
   \<and> feature_vector (extract_features now all_activities) ! 4 = 0"
proof -
  have f: "flights (aggregate (recent_activities now all_activities)) = 0"
    by (simp add: aggregate_def flights_foldl initial_aggregates_def)
  have e: "extract_features now all_activities ''flights_per_year'' = Some 0"
    by (simp add: extract_features_def user_emission_data_of_def f)
  have "feature_vector (extract_features now all_activities) ! 4 = 0"
    by (simp add: feature_vector_def classify_feature_cols_def dict_get_def e)
  with f e show ?thesis by simp
qed



section \<open>The recommendations endpoint\<close>

text \<open>The windows and features of the example activities.\<close>

lemma recent_old: "recent_activities example_now [old_activity] = []"
  by (simp add: recent_activities_def old_activity_def example_now_def thirty_days_def)

lemma recent_negative: "recent_activities example_now [negative_activity] = [negative_activity]"
  by (simp add: recent_activities_def negative_activity_def example_now_def thirty_days_def)

lemma features_negative:
  "extract_features example_now [negative_activity] =
     [''daily_miles_driven'' \<mapsto> - 1,
      ''meat_meals_per_week'' \<mapsto> 0,
      ''vegetarian_meals_per_week'' \<mapsto> 0,
      ''electricity_kwh_per_day'' \<mapsto> 0,
      ''natural_gas_therms_per_month'' \<mapsto> 0,
      ''flights_per_year'' \<mapsto> 0,
      ''transport_emissions_kg'' \<mapsto> - 150.015,
      ''food_emissions_kg'' \<mapsto> 0,
      ''energy_emissions_kg'' \<mapsto> 0]"
  unfolding extract_features_def recent_negative
  by (simp add: aggregate_def aggregate_step_def initial_aggregates_def user_emission_data_of_def
      negative_activity_def py_lower_def Let_def)

lemma features_empty_window:
  assumes "recent_activities now all_activities = []"
  shows "extract_features now all_activities =
     [''daily_miles_driven'' \<mapsto> 0,
      ''meat_meals_per_week'' \<mapsto> 0,
      ''vegetarian_meals_per_week'' \<mapsto> 0,
      ''electricity_kwh_per_day'' \<mapsto> 0,
      ''natural_gas_therms_per_month'' \<mapsto> 0,
      ''flights_per_year'' \<mapsto> 0,
      ''transport_emissions_kg'' \<mapsto> 0,
      ''food_emissions_kg'' \<mapsto> 0,
      ''energy_emissions_kg'' \<mapsto> 0]"
  unfolding extract_features_def assms
  by (simp add: aggregate_def initial_aggregates_def user_emission_data_of_def)

lemma feature_vector_empty_window:
  assumes "recent_activities now all_activities = []"
  shows "feature_vector (extract_features now all_activities) = [0, 0, 0, 0, 0, 0, 0, 0]"
  unfolding features_empty_window [OF assms]
  by (simp add: feature_vector_def classify_feature_cols_def dict_get_def)


subsection \<open>A missing model\<close>

lemma general_block_nonempty: "general_block recs \<noteq> []"
  by (simp add: general_block_def)

lemma rule_engine_nonempty: "generate_rule_based_recommendations fmt d a \<noteq> []"
  by (simp add: generate_rule_based_recommendations_def Let_def general_block_nonempty)

lemma enhance_fields:
  "title (enhance gemini r) = title r"
  "estimated_savings_kg (enhance gemini r) = estimated_savings_kg r"
  "category (enhance gemini r) = category r"
  "priority (enhance gemini r) = priority r"
  by (simp_all add: enhance_def Let_def)

lemma load_missing:
  assumes "kmeans_pkl dir = FileMissing
           \<or> (kmeans_pkl dir \<noteq> FileCorrupt \<and> scaler_pkl dir = FileMissing)
           \<or> (kmeans_pkl dir \<noteq> FileCorrupt \<and> scaler_pkl dir \<noteq> FileCorrupt
               \<and> cluster_descriptions_json dir = FileMissing)"
  shows "load_kmeans_model dir = Inr None"
  using assms by (auto simp: load_kmeans_model_def split: artifact_file.splits)

lemma get_recommendations_unclassified:
  assumes "classify_user_archetype dir (finite_values (extract_features now all_activities)) = Inr None"
    and "all_activities \<noteq> []"
  shows "get_recommendations fmt dir gemini now all_activities =
           Inr \<lparr>user_archetype = ''Unknown'',
                recommendations =
                  map (enhance gemini)
                    (generate_rule_based_recommendations fmt
                       (extract_features now all_activities) ''Unknown''),
                total_potential_savings_kg =
                  sum_list (map estimated_savings_kg
                    (map (enhance gemini)
                      (generate_rule_based_recommendations fmt
                         (extract_features now all_activities) ''Unknown'')))\<rparr>"
  using assms by (simp add: get_recommendations_def Let_def)

text \<open>
  C5, as the code has it. When an artifact file is missing and no file opened before it
  is corrupt (the files are opened in the order kmeans.pkl, scaler.pkl,
  cluster_descriptions.json), classification raises nothing and reports the model as
  unavailable; the endpoint then answers with the archetype "Unknown" and at least one
  recommendation, for every activity history, clock and collaborator: for a history
  that is not empty these are the recommendations of the rule engine for the extracted
  features, for the empty history the endpoint answers before the rule engine, with its
  fixed "Start Logging Activities" entry.
\<close>

theorem model_missing_degrades:
  assumes "kmeans_pkl dir = FileMissing
           \<or> (kmeans_pkl dir \<noteq> FileCorrupt \<and> scaler_pkl dir = FileMissing)
           \<or> (kmeans_pkl dir \<noteq> FileCorrupt \<and> scaler_pkl dir \<noteq> FileCorrupt
               \<and> cluster_descriptions_json dir = FileMissing)"
  shows "classify_user_archetype dir user_emission_data = Inr None
       \<and> (\<exists>response. get_recommendations fmt dir gemini now all_activities = Inr response
             \<and> user_archetype response = ''Unknown''
             \<and> recommendations response \<noteq> []
             \<and> total_potential_savings_kg response
                 = sum_list (map estimated_savings_kg (recommendations response))
             \<and> (all_activities \<noteq> [] \<longrightarrow>
                  recommendations response =
                    map (enhance gemini)
                      (generate_rule_based_recommendations fmt
                         (extract_features now all_activities) ''Unknown'')))"
proof -
  have none: "classify_user_archetype dir d = Inr None" for d
    by (simp add: classify_user_archetype_def load_missing [OF assms])
  show ?thesis
  proof (cases "all_activities = []")
    case True
    then show ?thesis
      by (simp add: none get_recommendations_def)
  next
    case False
    then show ?thesis
      by (simp add: none get_recommendations_unclassified [OF none False] rule_engine_nonempty)
  qed
qed

lemma rule_engine_unknown_zero:
  "generate_rule_based_recommendations fmt (extract_features example_now [old_activity]) ''Unknown''
     = [\<lparr>title = ''Track Your Progress'',
         description = ''Continue logging activities to get personalized recommendations'',
         estimated_savings_kg = 0,
         category = ''general'',
         priority = ''low''\<rparr>]"
  unfolding features_empty_window [OF recent_old]
  by (simp add: generate_rule_based_recommendations_def transportation_block_def
        food_block_def energy_block_def low_emissions_block_def general_block_def
        dict_get_def Let_def)

theorem model_missing_degrades_witness:
  "kmeans_pkl missing_model_dir = FileMissing
   \<and> get_recommendations example_format missing_model_dir None example_now [old_activity] =
       Inr \<lparr>user_archetype = ''Unknown'',
            recommendations =
              [\<lparr>title = ''Track Your Progress'',
                description = ''Track Your Progress: Continue logging activities to get personalized recommendations'',
                estimated_savings_kg = 0,
                category = ''general'',
                priority = ''low''\<rparr>],
            total_potential_savings_kg = 0\<rparr>"
proof -
  have m: "kmeans_pkl missing_model_dir = FileMissing
           \<or> (kmeans_pkl missing_model_dir \<noteq> FileCorrupt \<and> scaler_pkl missing_model_dir = FileMissing)
           \<or> (kmeans_pkl missing_model_dir \<noteq> FileCorrupt \<and> scaler_pkl missing_model_dir \<noteq> FileCorrupt
               \<and> cluster_descriptions_json missing_model_dir = FileMissing)"
    by (simp add: missing_model_dir_def)
  obtain response where
    r: "get_recommendations example_format missing_model_dir None example_now [old_activity] = Inr response"
    and a: "user_archetype response = ''Unknown''"
    and t: "total_potential_savings_kg response
              = sum_list (map estimated_savings_kg (recommendations response))"
    and l: "recommendations response =
              map (enhance None)
                (generate_rule_based_recommendations example_format
                   (extract_features example_now [old_activity]) ''Unknown'')"
    using model_missing_degrades [OF m, of Map.empty example_format None example_now "[old_activity]"]
    by auto
  have "response = \<lparr>user_archetype = ''Unknown'',
            recommendations =
              [\<lparr>title = ''Track Your Progress'',
                description = ''Track Your Progress: Continue logging activities to get personalized recommendations'',
                estimated_savings_kg = 0,
                category = ''general'',
                priority = ''low''\<rparr>],
            total_potential_savings_kg = 0\<rparr>"
    using a l t
    by (cases response)
       (simp add: rule_engine_unknown_zero enhance_def generate_recommendation_text_def Let_def)
  with r show ?thesis
    by (simp add: missing_model_dir_def)
qed

text \<open>
  With scaler.pkl missing but kmeans.pkl corrupt, the exception of the unpickling is
  caught nowhere and the request fails.
\<close>

theorem model_missing_counterexample:
  "scaler_pkl interrupted_model_dir = FileMissing
   \<and> classify_user_archetype interrupted_model_dir
         (finite_values (extract_features example_now [old_activity]))
       = Inl UnpicklingError
   \<and> get_recommendations example_format interrupted_model_dir None example_now [old_activity]
       = Inl UnpicklingError"
  by (simp add: get_recommendations_def Let_def classify_user_archetype_def load_kmeans_model_def
      interrupted_model_dir_def old_activity_def)


subsection \<open>The fallback of the text enhancement\<close>

text \<open>
  C6, as the code has it. When the collaborator is unavailable (no API key) or fails on
  the prompt, the description of the returned recommendation is the text that was handed
  to the collaborator, verbatim: the title, a colon and a space, then the description of
  the rule engine. The other four fields are those of the rule engine.
\<close>

theorem fallback_description:
  assumes "gemini = None
           \<or> (\<exists>generate. gemini = Some generate
                 \<and> generate (recommendation_prompt (title rec @ '': '' @ description rec)) = None)"
  shows "description (enhance gemini rec) = title rec @ '': '' @ description rec
       \<and> title (enhance gemini rec) = title rec
       \<and> estimated_savings_kg (enhance gemini rec) = estimated_savings_kg rec
       \<and> category (enhance gemini rec) = category rec
       \<and> priority (enhance gemini rec) = priority rec"
  using assms
  by (auto simp: enhance_def Let_def generate_recommendation_text_def)

theorem fallback_description_witness:
  "enhance (Some (\<lambda>prompt. None))
     \<lparr>title = ''Track Your Progress'',
      description = ''Continue logging activities to get personalized recommendations'',
      estimated_savings_kg = 0,
      category = ''general'',
      priority = ''low''\<rparr>
   = \<lparr>title = ''Track Your Progress'',
      description = ''Track Your Progress: Continue logging activities to get personalized recommendations'',
      estimated_savings_kg = 0,
      category = ''general'',
      priority = ''low''\<rparr>"
proof -
  let ?rec = "\<lparr>title = ''Track Your Progress'',
      description = ''Continue logging activities to get personalized recommendations'',
      estimated_savings_kg = 0,
      category = ''general'',
      priority = ''low''\<rparr>"
  let ?gemini = "Some (\<lambda>prompt::string. None::string option)"
  have "?gemini = None
           \<or> (\<exists>generate. ?gemini = Some generate
                 \<and> generate (recommendation_prompt (title ?rec @ '': '' @ description ?rec)) = None)"
    by simp
  from fallback_description [OF this] show ?thesis
    by (cases "enhance ?gemini ?rec") simp
qed

text \<open>
  The returned description is not the description of the rule engine: for the
  "Track Your Progress" recommendation and no API key it starts with the title.
\<close>

theorem fallback_description_counterexample:
  "generate_rule_based_recommendations example_format Map.empty ''Unknown''
     = [\<lparr>title = ''Track Your Progress'',
         description = ''Continue logging activities to get personalized recommendations'',
         estimated_savings_kg = 0,
         category = ''general'',
         priority = ''low''\<rparr>]
   \<and> map description
        (map (enhance None) (generate_rule_based_recommendations example_format Map.empty ''Unknown''))
      = [''Track Your Progress: Continue logging activities to get personalized recommendations'']
   \<and> map description
        (map (enhance None) (generate_rule_based_recommendations example_format Map.empty ''Unknown''))
      \<noteq> map description (generate_rule_based_recommendations example_format Map.empty ''Unknown'')"
  by (simp add: generate_rule_based_recommendations_def transportation_block_def
        food_block_def energy_block_def low_emissions_block_def general_block_def
        dict_get_def Let_def enhance_def generate_recommendation_text_def)


subsection \<open>Feature vectors are not validated\<close>

text \<open>The example model: what is loaded, what it predicts, what its descriptions hold.\<close>

lemma example_load:
  "load_kmeans_model example_model_dir =
     Inr (Some (example_kmeans, example_scaler, example_descriptions))"
  by (simp add: load_kmeans_model_def example_model_dir_def)

lemma example_description_1:
  "example_descriptions (py_str_int 1) = Some (analyze_cluster [low_row])"
  by (simp add: example_descriptions_def dumped_descriptions_def analyze_clusters_def cluster_rows_def example_df_def
      py_str_int_def upt_rec)

lemma low_row_archetype: "archetype (analyze_cluster [low_row]) = ''Low Total Emissions''"
  by (simp add: analyze_cluster_def Let_def mean_def low_row_eq)

lemma example_predict_zero: "example_kmeans (example_scaler [0, 0, 0, 0, 0, 0, 0, 0]) = 1"
  by (simp add: example_kmeans_def example_scaler_def standard_scaler_def nearest_centroid_def
      squared_distance_def power2_eq_square)

lemma example_predict_negative:
  "example_kmeans (example_scaler [- 1, 0, 0, 0, 0, 0, 0, 0]) = 1"
  "example_kmeans (example_scaler [- 1, 0, 0, 0, 0, - (30003 / 200), 0, 0]) = 1"
  by (simp_all add: example_kmeans_def example_scaler_def standard_scaler_def nearest_centroid_def
      squared_distance_def power2_eq_square)

text \<open>The vector, and the input check of the scaler.\<close>

lemma feature_vector_eq:
  "feature_vector d = map (\<lambda>col. case d col of None \<Rightarrow> 0 | Some v \<Rightarrow> v) classify_feature_cols"
  by (simp add: feature_vector_def dict_get_def)

lemma feature_vector_finite_values:
  "feature_vector (finite_values d) = map Finite (feature_vector d)"
  by (simp add: feature_vector_eq classify_feature_cols_def finite_values_def zero_pyfloat_def
      split: option.splits)

lemma check_array_Finite: "check_array (map Finite row) = Inr row"
  by (induction row) simp_all

lemma check_array_rejects:
  "x \<in> set xs \<Longrightarrow> x = NaN \<or> x = PosInf \<or> x = NegInf \<Longrightarrow> check_array xs = Inl ValueError"
  by (induction xs rule: check_array.induct) auto

lemma classify_loaded:
  assumes "load_kmeans_model dir = Inr (Some (kmeans, scaler, descriptions))"
    and "check_array (feature_vector d) = Inr row"
  shows "classify_user_archetype dir d =
           Inr (Some \<lparr>cluster_id = kmeans (scaler row),
                      class_archetype =
                        (case descriptions (py_str_int (kmeans (scaler row))) of
                           None \<Rightarrow> ''Unknown''
                         | Some info \<Rightarrow> archetype info),
                      class_description = descriptions (py_str_int (kmeans (scaler row))),
                      class_stats =
                        map_option stats (descriptions (py_str_int (kmeans (scaler row))))\<rparr>)"
  by (simp add: classify_user_archetype_def assms Let_def)

lemma classify_finite_values:
  assumes "load_kmeans_model dir = Inr (Some (kmeans, scaler, descriptions))"
  shows "classify_user_archetype dir (finite_values d) =
           Inr (Some \<lparr>cluster_id = kmeans (scaler (feature_vector d)),
                      class_archetype =
                        (case descriptions (py_str_int (kmeans (scaler (feature_vector d)))) of
                           None \<Rightarrow> ''Unknown''
                         | Some info \<Rightarrow> archetype info),
                      class_description = descriptions (py_str_int (kmeans (scaler (feature_vector d)))),
                      class_stats =
                        map_option stats (descriptions (py_str_int (kmeans (scaler (feature_vector d)))))\<rparr>)"
  by (rule classify_loaded [OF assms])
     (simp add: feature_vector_finite_values check_array_Finite)

lemma classify_rejects:
  assumes "load_kmeans_model dir = Inr (Some (kmeans, scaler, descriptions))"
    and "x \<in> set (feature_vector d)" and "x = NaN \<or> x = PosInf \<or> x = NegInf"
  shows "classify_user_archetype dir d = Inl ValueError"
  by (simp add: classify_user_archetype_def assms(1) check_array_rejects [OF assms(2,3)])

lemma classify_total:
  assumes "\<forall>e. load_kmeans_model dir \<noteq> Inl e"
  shows "\<exists>r. classify_user_archetype dir (finite_values d) = Inr r"
proof (cases "load_kmeans_model dir")
  case (Inl e)
  with assms show ?thesis by simp
next
  case (Inr m)
  show ?thesis
  proof (cases m)
    case None
    with Inr show ?thesis by (simp add: classify_user_archetype_def)
  next
    case (Some model)
    obtain kmeans scaler descriptions where "model = (kmeans, scaler, descriptions)"
      by (cases model)
    with Inr Some show ?thesis
      by (simp add: classify_finite_values)
  qed
qed

lemma get_recommendations_total:
  assumes "\<forall>e. load_kmeans_model dir \<noteq> Inl e"
  shows "\<exists>response. get_recommendations fmt dir gemini now all_activities = Inr response"
proof (cases "all_activities = []")
  case True
  then show ?thesis by (simp add: get_recommendations_def)
next
  case False
  obtain r where
    "classify_user_archetype dir (finite_values (extract_features now all_activities)) = Inr r"
    using classify_total [OF assms] by blast
  with False show ?thesis
    by (simp add: get_recommendations_def Let_def)
qed

text \<open>The mileage feature is the plain sum over the window, whatever the signs.\<close>

lemma daily_miles_aggregate_step:
  "daily_miles (aggregate_step s act) =
     daily_miles s
       + (if activity_category act = ''transportation''
             \<and> py_lower (unit act) \<in> set [''miles'', ''km'']
          then amount act / 30 else 0)"
  by (auto simp: aggregate_step_def Let_def)

lemma daily_miles_foldl:
  "daily_miles (foldl aggregate_step s acts) =
     daily_miles s
       + sum_list (map (\<lambda>act. amount act / 30)
           (filter (\<lambda>act. activity_category act = ''transportation''
                            \<and> py_lower (unit act) \<in> set [''miles'', ''km'']) acts))"
proof (induction acts arbitrary: s)
  case Nil
  show ?case by simp
next
  case (Cons act acts)
  show ?case
    unfolding foldl_Cons Cons.IH daily_miles_aggregate_step
    by auto
qed

lemma daily_miles_driven_sum:
  "extract_features now all_activities ''daily_miles_driven'' =
     Some (sum_list (map (\<lambda>act. amount act / 30)
             (filter (\<lambda>act. activity_category act = ''transportation''
                              \<and> py_lower (unit act) \<in> set [''miles'', ''km''])
                (recent_activities now all_activities))))"
  by (simp add: extract_features_def user_emission_data_of_def aggregate_def daily_miles_foldl
      initial_aggregates_def)

text \<open>
  C7, as the code has it. Nothing in the repository validates a feature vector. The
  pipeline sums the amounts whatever their sign: the mileage feature is the sum of
  amount / 30 over the transportation records of the window given in miles or km, so a
  negative amount gives a negative feature. The classifier builds a vector of eight
  entries for every dictionary, a missing feature read as 0.0 and a present value taken
  as it is. When no model is loaded it reports the model as unavailable for every
  dictionary, one holding NaN included. When a model is loaded, a vector of numbers,
  negative ones included, is classified, for the cluster the model predicts for it; a
  vector with a NaN or infinite entry is rejected only by the input check of
  scikit-learn inside the scaler, as a \<^verbatim>\<open>ValueError\<close> that nothing catches.
\<close>

theorem no_feature_validation:
  "length (feature_vector d) = 8
   \<and> feature_vector d
       = map (\<lambda>col. case d col of None \<Rightarrow> Finite 0 | Some v \<Rightarrow> v) classify_feature_cols
   \<and> (load_kmeans_model dir = Inr None \<longrightarrow> classify_user_archetype dir d = Inr None)
   \<and> (load_kmeans_model dir = Inr (Some (kmeans, scaler, descriptions)) \<longrightarrow>
        (\<forall>row. feature_vector d = map Finite row \<longrightarrow>
           (\<exists>c. classify_user_archetype dir d = Inr (Some c)
                 \<and> cluster_id c = kmeans (scaler row)))
        \<and> ((\<exists>x \<in> set (feature_vector d). x = NaN \<or> x = PosInf \<or> x = NegInf) \<longrightarrow>
             classify_user_archetype dir d = Inl ValueError))
   \<and> extract_features now all_activities ''daily_miles_driven'' =
       Some (sum_list (map (\<lambda>act. amount act / 30)
               (filter (\<lambda>act. activity_category act = ''transportation''
                                \<and> py_lower (unit act) \<in> set [''miles'', ''km''])
                  (recent_activities now all_activities))))"
proof -
  have len: "length (feature_vector d) = 8"
    by (simp add: feature_vector_def classify_feature_cols_def)
  have vec: "feature_vector d
       = map (\<lambda>col. case d col of None \<Rightarrow> Finite 0 | Some v \<Rightarrow> v) classify_feature_cols"
    by (simp add: feature_vector_eq zero_pyfloat_def split: option.splits)
  have missing: "classify_user_archetype dir d = Inr None" if "load_kmeans_model dir = Inr None"
    using that by (simp add: classify_user_archetype_def)
  have accepted: "\<exists>c. classify_user_archetype dir d = Inr (Some c)
                      \<and> cluster_id c = kmeans (scaler row)"
    if "load_kmeans_model dir = Inr (Some (kmeans, scaler, descriptions))"
      and "feature_vector d = map Finite row" for row
    using classify_loaded [OF that(1), of d row] that(2)
    by (simp add: check_array_Finite)
  have rejected: "classify_user_archetype dir d = Inl ValueError"
    if "load_kmeans_model dir = Inr (Some (kmeans, scaler, descriptions))"
      and "\<exists>x \<in> set (feature_vector d). x = NaN \<or> x = PosInf \<or> x = NegInf"
    using that classify_rejects by blast
  show ?thesis
    using len vec missing accepted rejected daily_miles_driven_sum [of now all_activities]
    by blast
qed

theorem no_feature_validation_witness:
  "load_kmeans_model example_model_dir =
     Inr (Some (example_kmeans, example_scaler, example_descriptions))
   \<and> feature_vector [''daily_miles_driven'' \<mapsto> Finite (- 1)] = map Finite [- 1, 0, 0, 0, 0, 0, 0, 0]
   \<and> (\<exists>c. classify_user_archetype example_model_dir [''daily_miles_driven'' \<mapsto> Finite (- 1)]
             = Inr (Some c)
           \<and> cluster_id c = 1)
   \<and> NaN \<in> set (feature_vector [''daily_miles_driven'' \<mapsto> NaN])
   \<and> classify_user_archetype example_model_dir [''daily_miles_driven'' \<mapsto> NaN] = Inl ValueError
   \<and> load_kmeans_model missing_model_dir = Inr None
   \<and> classify_user_archetype missing_model_dir [''daily_miles_driven'' \<mapsto> NaN] = Inr None"
proof -
  have v: "feature_vector [''daily_miles_driven'' \<mapsto> Finite (- 1)]
             = map Finite [- 1, 0, 0, 0, 0, 0, 0, 0]"
    by (simp add: feature_vector_eq classify_feature_cols_def zero_pyfloat_def)
  have n: "NaN \<in> set (feature_vector [''daily_miles_driven'' \<mapsto> NaN])"
    by (simp add: feature_vector_eq classify_feature_cols_def)
  have m: "load_kmeans_model missing_model_dir = Inr None"
    by (simp add: load_kmeans_model_def missing_model_dir_def)
  have "\<exists>c. classify_user_archetype example_model_dir [''daily_miles_driven'' \<mapsto> Finite (- 1)]
             = Inr (Some c)
           \<and> cluster_id c = example_kmeans (example_scaler [- 1, 0, 0, 0, 0, 0, 0, 0])"
    using no_feature_validation [of "[''daily_miles_driven'' \<mapsto> Finite (- 1)]" example_model_dir
        example_kmeans example_scaler example_descriptions example_now "[]"]
      example_load v
    by blast
  moreover have "classify_user_archetype example_model_dir [''daily_miles_driven'' \<mapsto> NaN]
                   = Inl ValueError"
    using no_feature_validation [of "[''daily_miles_driven'' \<mapsto> NaN]" example_model_dir
        example_kmeans example_scaler example_descriptions example_now "[]"]
      example_load n
    by blast
  moreover have "classify_user_archetype missing_model_dir [''daily_miles_driven'' \<mapsto> NaN]
                   = Inr None"
    using no_feature_validation [of "[''daily_miles_driven'' \<mapsto> NaN]" missing_model_dir
        example_kmeans example_scaler example_descriptions example_now "[]"] m
    by blast
  ultimately show ?thesis
    using example_load v n m by (simp add: example_predict_negative(1))
qed

text \<open>
  A dictionary with one feature out of eight, and that one negative, is classified; a
  dictionary holding NaN is not rejected when no model is loaded; an activity with a
  negative amount goes through the pipeline into a negative feature and the request
  answers.
\<close>

theorem no_feature_validation_counterexample:
  "feature_vector [''daily_miles_driven'' \<mapsto> Finite (- 1)]
     = [Finite (- 1), Finite 0, Finite 0, Finite 0, Finite 0, Finite 0, Finite 0, Finite 0]
   \<and> classify_user_archetype example_model_dir [''daily_miles_driven'' \<mapsto> Finite (- 1)]
       = Inr (Some \<lparr>cluster_id = 1,
                    class_archetype = ''Low Total Emissions'',
                    class_description = Some (analyze_cluster [low_row]),
                    class_stats = Some (stats (analyze_cluster [low_row]))\<rparr>)
   \<and> classify_user_archetype missing_model_dir [''daily_miles_driven'' \<mapsto> NaN] = Inr None
   \<and> extract_features example_now [negative_activity] ''daily_miles_driven'' = Some (- 1)
   \<and> get_recommendations example_format example_model_dir None example_now [negative_activity]
       = Inr \<lparr>user_archetype = ''Low Total Emissions'',
              recommendations =
                [\<lparr>title = ''Maintain Low Emissions'',
                  description = ''Maintain Low Emissions: You're doing great! Continue your sustainable habits.'',
                  estimated_savings_kg = 0,
                  category = ''general'',
                  priority = ''low''\<rparr>],
              total_potential_savings_kg = 0\<rparr>"
proof -
  have v: "feature_vector [''daily_miles_driven'' \<mapsto> Finite (- 1)]
     = [Finite (- 1), Finite 0, Finite 0, Finite 0, Finite 0, Finite 0, Finite 0, Finite 0]"
    by (simp add: feature_vector_eq classify_feature_cols_def zero_pyfloat_def)
  have k: "check_array (feature_vector [''daily_miles_driven'' \<mapsto> Finite (- 1)])
             = Inr [- 1, 0, 0, 0, 0, 0, 0, 0]"
    by (simp add: v)
  have c: "classify_user_archetype example_model_dir [''daily_miles_driven'' \<mapsto> Finite (- 1)]
       = Inr (Some \<lparr>cluster_id = 1,
                    class_archetype = ''Low Total Emissions'',
                    class_description = Some (analyze_cluster [low_row]),
                    class_stats = Some (stats (analyze_cluster [low_row]))\<rparr>)"
    by (simp add: classify_loaded [OF example_load k] example_predict_negative
        example_description_1 low_row_archetype)
  have n: "classify_user_archetype missing_model_dir [''daily_miles_driven'' \<mapsto> NaN] = Inr None"
    by (simp add: classify_user_archetype_def load_kmeans_model_def missing_model_dir_def)
  have w: "feature_vector (extract_features example_now [negative_activity])
             = [- 1, 0, 0, 0, 0, - (30003 / 200), 0, 0]"
    by (simp add: features_negative feature_vector_eq classify_feature_cols_def)
  have c': "classify_user_archetype example_model_dir
              (finite_values (extract_features example_now [negative_activity]))
       = Inr (Some \<lparr>cluster_id = 1,
                    class_archetype = ''Low Total Emissions'',
                    class_description = Some (analyze_cluster [low_row]),
                    class_stats = Some (stats (analyze_cluster [low_row]))\<rparr>)"
    by (simp add: classify_finite_values [OF example_load] w example_predict_negative
        example_description_1 low_row_archetype)
  have rules: "generate_rule_based_recommendations example_format
                 (extract_features example_now [negative_activity]) ''Low Total Emissions''
     = [\<lparr>title = ''Maintain Low Emissions'',
         description = ''You're doing great! Continue your sustainable habits.'',
         estimated_savings_kg = 0,
         category = ''general'',
         priority = ''low''\<rparr>]"
    unfolding features_negative
    by (simp add: generate_rule_based_recommendations_def transportation_block_def
        food_block_def energy_block_def low_emissions_block_def general_block_def
        dict_get_def Let_def)
  have g: "get_recommendations example_format example_model_dir None example_now [negative_activity]
       = Inr \<lparr>user_archetype = ''Low Total Emissions'',
              recommendations =
                [\<lparr>title = ''Maintain Low Emissions'',
                  description = ''Maintain Low Emissions: You're doing great! Continue your sustainable habits.'',
                  estimated_savings_kg = 0,
                  category = ''general'',
                  priority = ''low''\<rparr>],
              total_potential_savings_kg = 0\<rparr>"
    by (simp add: get_recommendations_def Let_def c' rules enhance_def
        generate_recommendation_text_def)
  show ?thesis
    using v c n g by (simp add: features_negative)
qed

subsection \<open>An empty activity history\<close>

lemma rule_engine_zero_features:
  "generate_rule_based_recommendations fmt
     [''daily_miles_driven'' \<mapsto> 0,
      ''meat_meals_per_week'' \<mapsto> 0,
      ''vegetarian_meals_per_week'' \<mapsto> 0,
      ''electricity_kwh_per_day'' \<mapsto> 0,
      ''natural_gas_therms_per_month'' \<mapsto> 0,
      ''flights_per_year'' \<mapsto> 0,
      ''transport_emissions_kg'' \<mapsto> 0,
      ''food_emissions_kg'' \<mapsto> 0,
      ''energy_emissions_kg'' \<mapsto> 0] a
   = (if py_in ''Low'' a
      then [\<lparr>title = ''Maintain Low Emissions'',
              description = ''You're doing great! Continue your sustainable habits.'',
              estimated_savings_kg = 0,
              category = ''general'',
              priority = ''low''\<rparr>]
      else [\<lparr>title = ''Track Your Progress'',
              description = ''Continue logging activities to get personalized recommendations'',
              estimated_savings_kg = 0,
              category = ''general'',
              priority = ''low''\<rparr>])"
  by (simp add: generate_rule_based_recommendations_def transportation_block_def
        food_block_def energy_block_def low_emissions_block_def general_block_def
        dict_get_def Let_def)

lemma get_recommendations_empty_window:
  assumes w: "recent_activities now all_activities = []"
    and ne: "all_activities \<noteq> []"
    and r: "get_recommendations fmt dir gemini now all_activities = Inr response"
  shows "map title (recommendations response)
           = [if py_in ''Low'' (user_archetype response)
              then ''Maintain Low Emissions'' else ''Track Your Progress'']
       \<and> map estimated_savings_kg (recommendations response) = [0]
       \<and> total_potential_savings_kg response = 0"
proof (cases "classify_user_archetype dir (finite_values (extract_features now all_activities))")
  case (Inl e)
  with r ne show ?thesis
    by (simp add: get_recommendations_def Let_def)
next
  case (Inr archetype_result)
  define a where "a = (case archetype_result of
                         Some result \<Rightarrow> class_archetype result
                       | None \<Rightarrow> ''Unknown'')"
  have "response =
          \<lparr>user_archetype = a,
           recommendations =
             map (enhance gemini)
               (generate_rule_based_recommendations fmt (extract_features now all_activities) a),
           total_potential_savings_kg =
             sum_list (map estimated_savings_kg
               (map (enhance gemini)
                 (generate_rule_based_recommendations fmt (extract_features now all_activities) a)))\<rparr>"
    using r ne Inr by (simp add: get_recommendations_def Let_def a_def)
  then show ?thesis
    unfolding features_empty_window [OF w] rule_engine_zero_features
    by (simp add: enhance_fields)
qed

text \<open>
  C8, as the code has it. With no activity at all the endpoint answers at once, before
  any feature is extracted: archetype "Unknown" and the single "Start Logging
  Activities" recommendation with savings 0. With activities of which none lies in the
  30-day window the feature vector is all zeros, the endpoint answers whenever loading
  the model raises nothing, and its answer holds exactly one recommendation, with
  savings 0: "Maintain Low Emissions" when the archetype contains "Low", "Track Your
  Progress" otherwise.
\<close>

theorem empty_history:
  "(all_activities = [] \<longrightarrow>
      get_recommendations fmt dir gemini now all_activities =
        Inr \<lparr>user_archetype = ''Unknown'',
             recommendations =
               [\<lparr>title = ''Start Logging Activities'',
                 description = ''Begin logging your daily activities to receive personalized recommendations.'',
                 estimated_savings_kg = 0,
                 category = ''general'',
                 priority = ''low''\<rparr>],
             total_potential_savings_kg = 0\<rparr>)
   \<and> (all_activities \<noteq> [] \<and> recent_activities now all_activities = [] \<longrightarrow>
        feature_vector (extract_features now all_activities) = [0, 0, 0, 0, 0, 0, 0, 0]
        \<and> ((\<forall>e. load_kmeans_model dir \<noteq> Inl e) \<longrightarrow>
             (\<exists>response. get_recommendations fmt dir gemini now all_activities = Inr response))
        \<and> (\<forall>response. get_recommendations fmt dir gemini now all_activities = Inr response \<longrightarrow>
              map title (recommendations response)
                = [if py_in ''Low'' (user_archetype response)
                   then ''Maintain Low Emissions'' else ''Track Your Progress'']
              \<and> map estimated_savings_kg (recommendations response) = [0]
              \<and> total_potential_savings_kg response = 0))"
  using get_recommendations_total [of dir fmt gemini now all_activities]
    get_recommendations_empty_window [of now all_activities fmt dir gemini]
  by (auto simp: get_recommendations_def feature_vector_empty_window)

theorem empty_history_witness:
  "get_recommendations example_format missing_model_dir None example_now [] =
        Inr \<lparr>user_archetype = ''Unknown'',
             recommendations =
               [\<lparr>title = ''Start Logging Activities'',
                 description = ''Begin logging your daily activities to receive personalized recommendations.'',
                 estimated_savings_kg = 0,
                 category = ''general'',
                 priority = ''low''\<rparr>],
             total_potential_savings_kg = 0\<rparr>
   \<and> recent_activities example_now [old_activity] = []
   \<and> feature_vector (extract_features example_now [old_activity]) = [0, 0, 0, 0, 0, 0, 0, 0]
   \<and> (\<exists>response.
         get_recommendations example_format missing_model_dir None example_now [old_activity]
           = Inr response
         \<and> user_archetype response = ''Unknown''
         \<and> map title (recommendations response) = [''Track Your Progress'']
         \<and> map estimated_savings_kg (recommendations response) = [0])"
proof -
  have l: "\<forall>e. load_kmeans_model missing_model_dir \<noteq> Inl e"
    by (simp add: load_kmeans_model_def missing_model_dir_def)
  have u: "get_recommendations example_format missing_model_dir None example_now [old_activity]
             = Inr response \<Longrightarrow> user_archetype response = ''Unknown''" for response
    by (auto simp: get_recommendations_def Let_def classify_user_archetype_def
        load_kmeans_model_def missing_model_dir_def)
  show ?thesis
    using empty_history [of "[]" example_format missing_model_dir None example_now]
      empty_history [of "[old_activity]" example_format missing_model_dir None example_now]
      recent_old l u
    by auto
qed

text \<open>
  With the example model the all-zero vector falls into the cluster labelled "Low Total
  Emissions", and the only recommendation is "Maintain Low Emissions": the list holds
  no "Track Your Progress" or "Start Logging Activities" entry.
\<close>

theorem empty_history_counterexample:
  "recent_activities example_now [old_activity] = []
   \<and> feature_vector (extract_features example_now [old_activity]) = [0, 0, 0, 0, 0, 0, 0, 0]
   \<and> get_recommendations example_format example_model_dir None example_now [old_activity]
       = Inr \<lparr>user_archetype = ''Low Total Emissions'',
              recommendations =
                [\<lparr>title = ''Maintain Low Emissions'',
                  description = ''Maintain Low Emissions: You're doing great! Continue your sustainable habits.'',
                  estimated_savings_kg = 0,
                  category = ''general'',
                  priority = ''low''\<rparr>],
              total_potential_savings_kg = 0\<rparr>"
proof -
  have v: "feature_vector (extract_features example_now [old_activity]) = [0, 0, 0, 0, 0, 0, 0, 0]"
    by (rule feature_vector_empty_window [OF recent_old])
  have c: "classify_user_archetype example_model_dir
             (finite_values (extract_features example_now [old_activity]))
       = Inr (Some \<lparr>cluster_id = 1,
                    class_archetype = ''Low Total Emissions'',
                    class_description = Some (analyze_cluster [low_row]),
                    class_stats = Some (stats (analyze_cluster [low_row]))\<rparr>)"
    by (simp add: classify_finite_values [OF example_load] v example_predict_zero
        example_description_1 low_row_archetype)
  have rules: "generate_rule_based_recommendations example_format
                 (extract_features example_now [old_activity]) ''Low Total Emissions''
     = [\<lparr>title = ''Maintain Low Emissions'',
         description = ''You're doing great! Continue your sustainable habits.'',
         estimated_savings_kg = 0,
         category = ''general'',
         priority = ''low''\<rparr>]"
    unfolding features_empty_window [OF recent_old] rule_engine_zero_features
    by simp
  have "get_recommendations example_format example_model_dir None example_now [old_activity]
       = Inr \<lparr>user_archetype = ''Low Total Emissions'',
              recommendations =
                [\<lparr>title = ''Maintain Low Emissions'',
                  description = ''Maintain Low Emissions: You're doing great! Continue your sustainable habits.'',
                  estimated_savings_kg = 0,
                  category = ''general'',
                  priority = ''low''\<rparr>],
              total_potential_savings_kg = 0\<rparr>"
    by (simp add: get_recommendations_def Let_def c rules enhance_def
        generate_recommendation_text_def)
  with v recent_old show ?thesis by simp
qed

end
